theory Spec2Isabelle
  imports Main "HOL-Library.Sublist"
begin

section \<open>JavaScript values used by the lead engine\<close>

text \<open>
  Strings are byte lists holding the UTF-8 encoding of the source's text. An optional
  field \<open>f?: T\<close> of an interface is a \<open>T option\<close>, with \<open>None\<close> for
  \<open>undefined\<close>. Counters and tiers are JavaScript numbers that hold integers, modelled
  as \<open>int\<close>.

  A condition \<open>if (v)\<close> and the operands of \<open>&&\<close> and \<open>||\<close> test truthiness: an
  optional string is truthy when it is defined and non-empty, an optional number when
  it is defined and non-zero.
\<close>

definition truthy :: "string \<Rightarrow> bool" where
  "truthy s = (s \<noteq> [])"

definition truthyStr :: "string option \<Rightarrow> bool" where
  "truthyStr v = (case v of None \<Rightarrow> False | Some s \<Rightarrow> truthy s)"

definition truthyNum :: "int option \<Rightarrow> bool" where
  "truthyNum v = (case v of None \<Rightarrow> False | Some n \<Rightarrow> n \<noteq> 0)"

text \<open>\<open>a || b\<close> on optional strings: \<open>a\<close> when it is truthy, else \<open>b\<close>.\<close>

definition orStr :: "string option \<Rightarrow> string option \<Rightarrow> string option" where
  "orStr a b = (if truthyStr a then a else b)"

text \<open>\<open>n || 0\<close> on an optional number.\<close>

definition orZero :: "int option \<Rightarrow> int" where
  "orZero v = (if truthyNum v then the v else 0)"

text \<open>A value interpolated into a template literal: \<open>undefined\<close> prints its name.\<close>

definition templStr :: "string option \<Rightarrow> string" where
  "templStr v = (case v of None \<Rightarrow> ''undefined'' | Some s \<Rightarrow> s)"

text \<open>The decimal text of an integer, as \<open>Number.prototype.toString\<close> gives it.\<close>

definition digitChar :: "nat \<Rightarrow> char" where
  "digitChar d = ''0123456789'' ! d"

fun digits :: "nat \<Rightarrow> string" where
  "digits n = (if n < 10 then [digitChar n] else digits (n div 10) @ [digitChar (n mod 10)])"

declare digits.simps [simp del]

definition numStr :: "int \<Rightarrow> string" where
  "numStr i = (if i < 0 then CHR ''-'' # digits (nat (- i)) else digits (nat i))"

section \<open>Lead (core/types/lead.ts)\<close>

datatype LeadSource =
  FacebookAd | InstagramDm | WebsiteForm | PdfDownload | ManualEntry | Referral | WalkIn | Event

datatype LeadTemperature = Hot | Warm | Cold

datatype LeadStage = New | Contacted | Engaged | ActionReady | Scheduled | Converted | Lost

text \<open>
  The optional fields of \<open>Lead\<close> form the record \<open>PartialLead\<close>; \<open>Lead\<close> extends it
  with the required fields. A value of \<open>Partial<Lead>\<close> is any extension of
  \<open>PartialLead\<close>: the required fields may or may not be there.
\<close>

record PartialLead =
  ghlContactId :: "string option"
  chiroHdLeadId :: "string option"
  clickupTaskId :: "string option"
  firstName :: "string option"
  lastName :: "string option"
  phone :: "string option"
  email :: "string option"
  socialHandle :: "string option"
  condition :: "string option"
  specificCondition :: "string option"
  isPregnant :: "bool option"
  birthDate :: "string option"
  emailsOpened :: "int option"
  emailsClicked :: "int option"
  smsReplied :: "bool option"
  lastEngagement :: "string option"
  campaignName :: "string option"
  convertedAt :: "string option"
  lead_notes :: "string option"
  tags :: "string list option"

record Lead = PartialLead +
  lead_id :: string
  tier :: int
  source :: LeadSource
  temperature :: LeadTemperature
  stage :: LeadStage
  createdAt :: string
  updatedAt :: string

definition calculateLeadTier :: "'a PartialLead_scheme \<Rightarrow> int" where
  "calculateLeadTier lead =
     (if truthyStr (firstName lead) \<and> truthyStr (lastName lead) \<and> truthyStr (phone lead) \<and>
         truthyStr (email lead) \<and> truthyStr (specificCondition lead) \<and>
         (isPregnant lead \<noteq> None \<or> truthyStr (birthDate lead))
      then 4
      else if truthyStr (firstName lead) \<and> truthyStr (lastName lead) \<and> truthyStr (phone lead) \<and>
         truthyStr (email lead) \<and> truthyStr (condition lead)
      then 3
      else if truthyStr (phone lead) \<and> truthyStr (email lead)
      then 2
      else 1)"

definition isActionReady :: "Lead \<Rightarrow> bool" where
  "isActionReady lead =
     (if tier lead = 4 then stage lead = Engaged \<or> stage lead = ActionReady
      else if tier lead = 3 then orZero (emailsOpened lead) \<ge> 2 \<and> orZero (emailsClicked lead) \<ge> 1
      else if tier lead = 2 then orZero (emailsOpened lead) \<ge> 3 \<or> orZero (emailsClicked lead) \<ge> 1
      else if tier lead = 1 then stage lead = ActionReady
      else False)"

section \<open>The Date operations the task builder uses\<close>

text \<open>
  A \<open>Date\<close> object holds a time value: milliseconds since the epoch, an integer. The
  operations below are the abstract operations of the language standard that
  \<open>getHours\<close>, \<open>setHours\<close>, \<open>getDate\<close>, \<open>setDate\<close> and \<open>getTime\<close> are made of.
  Time values stay inside the range a \<open>Date\<close> can hold, so no operation yields an
  invalid date.
\<close>

definition msPerSecond :: int where "msPerSecond = 1000"
definition msPerMinute :: int where "msPerMinute = 60000"
definition msPerHour :: int where "msPerHour = 3600000"
definition msPerDay :: int where "msPerDay = 86400000"

definition Day :: "int \<Rightarrow> int" where
  "Day t = t div msPerDay"

definition TimeWithinDay :: "int \<Rightarrow> int" where
  "TimeWithinDay t = t mod msPerDay"

definition HourFromTime :: "int \<Rightarrow> int" where
  "HourFromTime t = (t div msPerHour) mod 24"

definition MinFromTime :: "int \<Rightarrow> int" where
  "MinFromTime t = (t div msPerMinute) mod 60"

definition SecFromTime :: "int \<Rightarrow> int" where
  "SecFromTime t = (t div msPerSecond) mod 60"

definition msFromTime :: "int \<Rightarrow> int" where
  "msFromTime t = t mod msPerSecond"

definition DaysInYear :: "int \<Rightarrow> int" where
  "DaysInYear y =
     (if y mod 4 \<noteq> 0 then 365 else if y mod 100 \<noteq> 0 then 366
      else if y mod 400 \<noteq> 0 then 365 else 366)"

definition DayFromYear :: "int \<Rightarrow> int" where
  "DayFromYear y =
     365 * (y - 1970) + (y - 1969) div 4 - (y - 1901) div 100 + (y - 1601) div 400"

text \<open>
  \<open>YearFromTime t\<close> is the largest year whose first day is not after \<open>t\<close>. The
  mean year has 146097 / 400 days, which gives the year up to one; the neighbours
  are tried in turn (lemma \<open>YearFromTime_largest\<close> below).
\<close>

definition YearFromTime :: "int \<Rightarrow> int" where
  "YearFromTime t =
     (let y = 1970 + (400 * Day t) div 146097
      in if DayFromYear (y + 1) \<le> Day t then y + 1
         else if DayFromYear y \<le> Day t then y
         else y - 1)"

definition InLeapYear :: "int \<Rightarrow> int" where
  "InLeapYear t = (if DaysInYear (YearFromTime t) = 366 then 1 else 0)"

definition DayWithinYear :: "int \<Rightarrow> int" where
  "DayWithinYear t = Day t - DayFromYear (YearFromTime t)"

text \<open>The day of the year on which month \<open>m\<close> (0 to 11) starts; \<open>leap\<close> is 0 or 1.\<close>

definition monthStart :: "int \<Rightarrow> int \<Rightarrow> int" where
  "monthStart m leap =
     (if m = 0 then 0 else if m = 1 then 31 else if m = 2 then 59 + leap
      else if m = 3 then 90 + leap else if m = 4 then 120 + leap
      else if m = 5 then 151 + leap else if m = 6 then 181 + leap
      else if m = 7 then 212 + leap else if m = 8 then 243 + leap
      else if m = 9 then 273 + leap else if m = 10 then 304 + leap
      else 334 + leap)"

definition MonthFromTime :: "int \<Rightarrow> int" where
  "MonthFromTime t =
     (let d = DayWithinYear t; leap = InLeapYear t
      in if d < 31 then 0 else if d < 59 + leap then 1 else if d < 90 + leap then 2
         else if d < 120 + leap then 3 else if d < 151 + leap then 4
         else if d < 181 + leap then 5 else if d < 212 + leap then 6
         else if d < 243 + leap then 7 else if d < 273 + leap then 8
         else if d < 304 + leap then 9 else if d < 334 + leap then 10
         else 11)"

definition DateFromTime :: "int \<Rightarrow> int" where
  "DateFromTime t = DayWithinYear t - monthStart (MonthFromTime t) (InLeapYear t) + 1"

definition MakeTime :: "int \<Rightarrow> int \<Rightarrow> int \<Rightarrow> int \<Rightarrow> int" where
  "MakeTime hour minute sec ms = hour * msPerHour + minute * msPerMinute + sec * msPerSecond + ms"

text \<open>
  \<open>MakeDay year month date\<close>: the day number of the first of the month, found from the
  year and month after the month is brought into 0 to 11, plus \<open>date - 1\<close>; a date
  past the end of the month runs into the next one.
\<close>

definition MakeDay :: "int \<Rightarrow> int \<Rightarrow> int \<Rightarrow> int" where
  "MakeDay year month date =
     (let ym = year + month div 12; mn = month mod 12
      in DayFromYear ym + monthStart mn (if DaysInYear ym = 366 then 1 else 0) + date - 1)"

definition MakeDate :: "int \<Rightarrow> int \<Rightarrow> int" where
  "MakeDate day time = day * msPerDay + time"

text \<open>
  The time zone of the process. \<open>LocalTZA tz t isUTC\<close> is the offset of local time
  from UTC in milliseconds: for \<open>isUTC\<close> true, the offset in force at the time value
  \<open>t\<close>; for \<open>isUTC\<close> false, the offset by which the local time \<open>t\<close> is read. The
  zone has a standard offset and may observe daylight saving, which moves the clock
  forward by the zone's saving, half an hour or an hour; when it is in force, and how a
  local time that a change of the clock skips or repeats is read, is up to the
  runtime and so a parameter.
\<close>

datatype DstSaving = HalfHour | OneHour

fun savingMs :: "DstSaving \<Rightarrow> int" where
  "savingMs HalfHour = 1800000"
| "savingMs OneHour = 3600000"

record TimeZone =
  standardOffset :: int
  dstSaving :: DstSaving
  dstAtUTC :: "int \<Rightarrow> bool"
  dstAtLocal :: "int \<Rightarrow> bool"

definition LocalTZA :: "TimeZone \<Rightarrow> int \<Rightarrow> bool \<Rightarrow> int" where
  "LocalTZA tz t isUTC =
     standardOffset tz +
     (if (if isUTC then dstAtUTC tz t else dstAtLocal tz t) then savingMs (dstSaving tz) else 0)"

definition LocalTime :: "TimeZone \<Rightarrow> int \<Rightarrow> int" where
  "LocalTime tz t = t + LocalTZA tz t True"

definition UTC :: "TimeZone \<Rightarrow> int \<Rightarrow> int" where
  "UTC tz t = t - LocalTZA tz t False"

definition getHours :: "TimeZone \<Rightarrow> int \<Rightarrow> int" where
  "getHours tz t = HourFromTime (LocalTime tz t)"

definition getDate :: "TimeZone \<Rightarrow> int \<Rightarrow> int" where
  "getDate tz t = DateFromTime (LocalTime tz t)"

text \<open>\<open>setHours(hour)\<close>: minutes, seconds and milliseconds are kept.\<close>

definition setHours1 :: "TimeZone \<Rightarrow> int \<Rightarrow> int \<Rightarrow> int" where
  "setHours1 tz t hour =
     (let lt = LocalTime tz t
      in UTC tz (MakeDate (Day lt) (MakeTime hour (MinFromTime lt) (SecFromTime lt) (msFromTime lt))))"

text \<open>\<open>setHours(hour, min, sec, ms)\<close>.\<close>

definition setHours4 :: "TimeZone \<Rightarrow> int \<Rightarrow> int \<Rightarrow> int \<Rightarrow> int \<Rightarrow> int \<Rightarrow> int" where
  "setHours4 tz t hour minute sec ms =
     (let lt = LocalTime tz t
      in UTC tz (MakeDate (Day lt) (MakeTime hour minute sec ms)))"

definition setDate :: "TimeZone \<Rightarrow> int \<Rightarrow> int \<Rightarrow> int" where
  "setDate tz t date =
     (let lt = LocalTime tz t
      in UTC tz (MakeDate (MakeDay (YearFromTime lt) (MonthFromTime lt) date) (TimeWithinDay lt)))"

section \<open>Task (core/types/task.ts)\<close>

datatype TaskPriority = Urgent | High | Normal | Low

datatype TaskStatus = Open | InProgress | Completed | Cancelled

record CustomFields =
  cf_leadSource :: "string option"
  cf_leadTier :: "string option"
  cf_leadTemperature :: "string option"
  cf_phone :: "string option"
  cf_email :: "string option"
  cf_condition :: "string option"
  cf_lastContact :: "string option"

record ClickUpTask =
  task_id :: "string option"
  listId :: string
  name :: string
  description :: string
  priority :: TaskPriority
  status :: TaskStatus
  assignees :: "string list"
  dueDate :: "int option"
  task_createdAt :: "int option"
  customFields :: "CustomFields option"
  task_tags :: "string list option"

text \<open>The string a literal type of the source is at run time.\<close>

fun sourceStr :: "LeadSource \<Rightarrow> string" where
  "sourceStr FacebookAd = ''facebook-ad''"
| "sourceStr InstagramDm = ''instagram-dm''"
| "sourceStr WebsiteForm = ''website-form''"
| "sourceStr PdfDownload = ''pdf-download''"
| "sourceStr ManualEntry = ''manual-entry''"
| "sourceStr Referral = ''referral''"
| "sourceStr WalkIn = ''walk-in''"
| "sourceStr Event = ''event''"

fun temperatureStr :: "LeadTemperature \<Rightarrow> string" where
  "temperatureStr Hot = ''hot''"
| "temperatureStr Warm = ''warm''"
| "temperatureStr Cold = ''cold''"

text \<open>The pictographs of the source's messages, in UTF-8, and the line feed.\<close>

definition nl :: string where "nl = [CHR 0x0A]"
definition pictoTelephone :: string where "pictoTelephone = [CHR 0xF0, CHR 0x9F, CHR 0x93, CHR 0x9E]"
definition pictoEmail :: string where "pictoEmail = [CHR 0xF0, CHR 0x9F, CHR 0x93, CHR 0xA7]"
definition pictoMobile :: string where "pictoMobile = [CHR 0xF0, CHR 0x9F, CHR 0x93, CHR 0xB1]"
definition pictoHospital :: string where "pictoHospital = [CHR 0xF0, CHR 0x9F, CHR 0x8F, CHR 0xA5]"
definition pictoPin :: string where "pictoPin = [CHR 0xF0, CHR 0x9F, CHR 0x93, CHR 0x8D]"
definition pictoChart :: string where "pictoChart = [CHR 0xF0, CHR 0x9F, CHR 0x93, CHR 0x8A]"
definition pictoClock :: string where "pictoClock = [CHR 0xF0, CHR 0x9F, CHR 0x95, CHR 0x92]"
definition pictoMemo :: string where "pictoMemo = [CHR 0xF0, CHR 0x9F, CHR 0x93, CHR 0x9D]"
definition pictoLink :: string where "pictoLink = [CHR 0xF0, CHR 0x9F, CHR 0x94, CHR 0x97]"
definition pictoCheck :: string where "pictoCheck = [CHR 0xE2, CHR 0x9C, CHR 0x85]"
definition pictoWarning :: string where
  "pictoWarning = [CHR 0xE2, CHR 0x9A, CHR 0xA0, CHR 0xEF, CHR 0xB8, CHR 0x8F]"
definition pictoCross :: string where "pictoCross = [CHR 0xE2, CHR 0x9D, CHR 0x8C]"

text \<open>\<open>parts.push(x)\<close> and \<open>parts.join(sep)\<close>.\<close>

definition push :: "'a list \<Rightarrow> 'a \<Rightarrow> 'a list" where
  "push xs x = xs @ [x]"

fun join :: "string \<Rightarrow> string list \<Rightarrow> string" where
  "join sep [] = []"
| "join sep [x] = x"
| "join sep (x # y # ys) = x @ sep @ join sep (y # ys)"

definition generateTaskName :: "Lead \<Rightarrow> string" where
  "generateTaskName lead =
     (let name = (if truthyStr (firstName lead) \<and> truthyStr (lastName lead)
                  then templStr (firstName lead) @ '' '' @ templStr (lastName lead)
                  else templStr (orStr (orStr (orStr (email lead) (phone lead)) (socialHandle lead))
                                  (Some ''Unknown Lead'')))
      in ''Follow up with '' @ name @ '' (Tier '' @ numStr (tier lead) @ '')'')"

text \<open>
  \<open>generateTaskDescription\<close> fills the array \<open>parts\<close> and returns it joined; the
  array as it stands before the \<open>return\<close> is \<open>generateTaskDescription_parts\<close>.
  \<open>toLocaleDateString\<close> stands for \<open>new Date(s).toLocaleDateString()\<close>: the parse and
  the locale's date format belong to the runtime.
\<close>

definition generateTaskDescription_parts :: "(string \<Rightarrow> string) \<Rightarrow> Lead \<Rightarrow> string list" where
  "generateTaskDescription_parts toLocaleDateString lead =
     (let parts = [];
          parts = (if truthyStr (phone lead)
                   then push parts (pictoTelephone @ '' '' @ templStr (phone lead)) else parts);
          parts = (if truthyStr (email lead)
                   then push parts (pictoEmail @ '' '' @ templStr (email lead)) else parts);
          parts = (if truthyStr (socialHandle lead)
                   then push parts (pictoMobile @ '' '' @ templStr (socialHandle lead)) else parts);
          parts = (if truthyStr (condition lead) \<or> truthyStr (specificCondition lead)
                   then push parts (nl @ pictoHospital @ '' Condition: '' @
                          templStr (orStr (specificCondition lead) (condition lead)))
                   else parts);
          parts = push parts (nl @ pictoPin @ '' Source: '' @ sourceStr (source lead));
          parts = (if truthyNum (emailsOpened lead) \<or> truthyNum (emailsClicked lead)
                   then push parts (nl @ pictoChart @ '' Engagement: '' @
                          numStr (orZero (emailsOpened lead)) @ '' opens, '' @
                          numStr (orZero (emailsClicked lead)) @ '' clicks'')
                   else parts);
          parts = (if truthyStr (lastEngagement lead)
                   then (let lastContact = toLocaleDateString (templStr (lastEngagement lead))
                         in push parts (nl @ pictoClock @ '' Last contact: '' @ lastContact))
                   else parts);
          parts = (if truthyStr (lead_notes lead)
                   then push parts (nl @ pictoMemo @ '' Notes: '' @ templStr (lead_notes lead))
                   else parts);
          parts = (if truthyStr (ghlContactId lead)
                   then push parts (nl @ pictoLink @
                          '' [View in GHL](https://app.gohighlevel.com/contacts/'' @
                          templStr (ghlContactId lead) @ '')'')
                   else parts)
      in parts)"

definition generateTaskDescription :: "(string \<Rightarrow> string) \<Rightarrow> Lead \<Rightarrow> string" where
  "generateTaskDescription toLocaleDateString lead =
     join nl (generateTaskDescription_parts toLocaleDateString lead)"

definition calculateTaskPriority :: "int \<Rightarrow> TaskPriority" where
  "calculateTaskPriority tr =
     (if tr = 4 then Urgent
      else if tr = 3 then High
      else if tr = 2 then Normal
      else if tr = 1 then Low
      else Normal)"

text \<open>
  \<open>calculateDueDate\<close> reads the clock with \<open>new Date()\<close>; the reading is the
  argument \<open>now\<close>. The \<open>switch\<close> has no default: for any other tier the date is
  returned as it was read.
\<close>

definition calculateDueDate :: "TimeZone \<Rightarrow> int \<Rightarrow> int \<Rightarrow> int" where
  "calculateDueDate tz now tr =
     (if tr = 4 then setHours1 tz now (getHours tz now + 2)
      else if tr = 3 then
        (if getHours tz now < 15 then setHours4 tz now 17 0 0 0
         else setHours4 tz (setDate tz now (getDate tz now + 1)) 17 0 0 0)
      else if tr = 2 then setHours4 tz (setDate tz now (getDate tz now + 1)) 17 0 0 0
      else if tr = 1 then setHours4 tz (setDate tz now (getDate tz now + 2)) 17 0 0 0
      else now)"

definition buildTaskFromLead ::
  "(string \<Rightarrow> string) \<Rightarrow> TimeZone \<Rightarrow> int \<Rightarrow> Lead \<Rightarrow> string \<Rightarrow> string list \<Rightarrow> ClickUpTask" where
  "buildTaskFromLead toLocaleDateString tz now lead lid asg =
     \<lparr> task_id = None,
       listId = lid,
       name = generateTaskName lead,
       description = generateTaskDescription toLocaleDateString lead,
       priority = calculateTaskPriority (tier lead),
       status = Open,
       assignees = asg,
       dueDate = Some (calculateDueDate tz now (tier lead)),
       task_createdAt = None,
       customFields = Some
         \<lparr> cf_leadSource = Some (sourceStr (source lead)),
           cf_leadTier = Some (numStr (tier lead)),
           cf_leadTemperature = Some (temperatureStr (temperature lead)),
           cf_phone = phone lead,
           cf_email = email lead,
           cf_condition = orStr (condition lead) (specificCondition lead),
           cf_lastContact = lastEngagement lead \<rparr>,
       task_tags = Some (case tags lead of None \<Rightarrow> [] | Some ts \<Rightarrow> ts) \<rparr>"

section \<open>The orchestrator (workflows/lead-to-task.ts)\<close>

text \<open>A thrown value is an \<open>Error\<close> object; the handler reads its \<open>message\<close>.\<close>

datatype Exn = Error (message: string)

record LeadToTaskResult =
  success :: bool
  taskCreated :: bool
  taskId :: "string option"
  taskUrl :: "string option"
  slackNotified :: bool
  error :: "string option"

record ClickUpUser =
  user_id :: string
  username :: string
  user_email :: string
  initials :: string

record ClickUpTaskStatus =
  status_status :: string
  status_type :: string

record ClickUpTaskResponse =
  resp_id :: string
  resp_name :: string
  resp_status :: ClickUpTaskStatus
  date_created :: string
  date_updated :: string
  resp_assignees :: "ClickUpUser list"
  url :: string

datatype ClickUpClient = ClickUpClient string

datatype SlackClient = SlackClient string

text \<open>
  What a run does to the outside is a trace of events, oldest first: the lines it
  writes to the console, each call of the task store and of the messaging client with
  the call's result, and each delay.
\<close>

datatype Event =
    ConsoleLog string
  | ConsoleWarn string
  | ConsoleError string Exn
  | CreateTask ClickUpTask "Exn + ClickUpTaskResponse"
  | NotifyTaskCreated Lead ClickUpTaskResponse "string list" string "Exn + unit"
  | Delay int

type_synonym World = "Event list"

text \<open>
  What the workflow reads from outside. The configuration modules are filled from the
  process environment when they are loaded: the four list identifiers of
  \<open>CLICKUP_STRUCTURE\<close> (integrations/clickup/config, once config/clickup-structure),
  the channel of \<open>SLACK_CONFIG\<close> (integrations/slack/config), the team table of
  core/config/team-mapping (once config/user-mapping) and the two API tokens. The
  methods \<open>createTask\<close> and \<open>notifyTaskCreated\<close> of the clients wrap HTTP requests:
  what they answer is a parameter, and so are the clock, the time zone and the locale.
  An answer and a reading of the clock may depend on everything that happened before.
\<close>

record ClickUpLists =
  tier4Urgent :: string
  tier3High :: string
  tier2Normal :: string
  tier1Low :: string

datatype TeamRole = FrontDesk | Doctor | Manager

record TeamMember =
  member_name :: string
  member_email :: string
  clickupId :: "string option"
  slackId :: "string option"
  role :: TeamRole

record Env =
  timeZone :: TimeZone
  clock :: "World \<Rightarrow> int"
  toLocaleDateString :: "string \<Rightarrow> string"
  lists :: ClickUpLists
  frontDeskChannel :: string
  FRONT_DESK_TEAM :: "TeamMember list"
  CLICKUP_API_TOKEN :: "string option"
  SLACK_BOT_TOKEN :: "string option"
  createTask :: "ClickUpClient \<Rightarrow> World \<Rightarrow> ClickUpTask \<Rightarrow> Exn + ClickUpTaskResponse"
  notifyTaskCreated ::
    "SlackClient \<Rightarrow> World \<Rightarrow> Lead \<Rightarrow> ClickUpTaskResponse \<Rightarrow> string list \<Rightarrow> string \<Rightarrow> Exn + unit"

definition getListIdForTier :: "Env \<Rightarrow> int \<Rightarrow> string" where
  "getListIdForTier env tr =
     (if tr = 4 then tier4Urgent (lists env)
      else if tr = 3 then tier3High (lists env)
      else if tr = 2 then tier2Normal (lists env)
      else if tr = 1 then tier1Low (lists env)
      else tier2Normal (lists env))"

definition getFrontDeskChannelId :: "Env \<Rightarrow> string" where
  "getFrontDeskChannelId env = frontDeskChannel env"

text \<open>\<open>.map(member => member.clickupId).filter(id => id !== undefined)\<close>.\<close>

definition getFrontDeskClickUpIds :: "Env \<Rightarrow> string list" where
  "getFrontDeskClickUpIds env =
     map the (filter (\<lambda>i. i \<noteq> None) (map clickupId (FRONT_DESK_TEAM env)))"

definition getFrontDeskSlackIds :: "Env \<Rightarrow> string list" where
  "getFrontDeskSlackIds env =
     map the (filter (\<lambda>i. i \<noteq> None) (map slackId (FRONT_DESK_TEAM env)))"

definition getClickUpClient :: "Env \<Rightarrow> Exn + ClickUpClient" where
  "getClickUpClient env =
     (let apiToken = CLICKUP_API_TOKEN env
      in if \<not> truthyStr apiToken
         then Inl (Error ''CLICKUP_API_TOKEN must be set in environment variables'')
         else Inr (ClickUpClient (the apiToken)))"

definition getSlackClient :: "Env \<Rightarrow> Exn + SlackClient" where
  "getSlackClient env =
     (let botToken = SLACK_BOT_TOKEN env
      in if \<not> truthyStr botToken
         then Inl (Error ''SLACK_BOT_TOKEN must be set in environment variables'')
         else Inr (SlackClient (the botToken)))"

text \<open>The body of the \<open>try\<close> block: \<open>Inl\<close> is a value thrown out of it.\<close>

definition processLeadToTask_try :: "Env \<Rightarrow> Lead \<Rightarrow> World \<Rightarrow> (Exn + LeadToTaskResult) \<times> World" where
  "processLeadToTask_try env lead w =
     (if \<not> isActionReady lead
      then (Inr \<lparr> success = True, taskCreated = False, taskId = None, taskUrl = None,
                   slackNotified = False, error = Some ''Lead not yet at action stage'' \<rparr>, w)
      else
        let lid = getListIdForTier env (tier lead)
        in if \<not> truthy lid
           then (Inl (Error (''No ClickUp list configured for tier '' @ numStr (tier lead))), w)
           else
             let asg = getFrontDeskClickUpIds env;
                 w = (if length asg = 0
                      then push w (ConsoleWarn (pictoWarning @
                             '' No Front Desk team members configured, creating unassigned task''))
                      else w);
                 taskData = buildTaskFromLead (toLocaleDateString env) (timeZone env) (clock env w)
                              lead lid asg
             in case getClickUpClient env of
                  Inl e \<Rightarrow> (Inl e, w)
                | Inr clickup \<Rightarrow>
                    let r = createTask env clickup w taskData;
                        w = push w (CreateTask taskData r)
                    in case r of
                         Inl e \<Rightarrow> (Inl e, w)
                       | Inr createdTask \<Rightarrow>
                           let w = push w (ConsoleLog (pictoCheck @ '' ClickUp task created: '' @
                                     resp_id createdTask @ '' - '' @ resp_name createdTask));
                               channelId = getFrontDeskChannelId env
                           in if \<not> truthy channelId
                              then (Inr \<lparr> success = True, taskCreated = True,
                                           taskId = Some (resp_id createdTask),
                                           taskUrl = Some (url createdTask),
                                           slackNotified = False, error = None \<rparr>,
                                    push w (ConsoleWarn (pictoWarning @
                                      '' No Slack channel configured, skipping notification'')))
                              else
                                let slackUserIds = getFrontDeskSlackIds env;
                                    w = (if length slackUserIds = 0
                                         then push w (ConsoleWarn (pictoWarning @
                                                '' No Slack users configured, posting without mentions''))
                                         else w)
                                in case getSlackClient env of
                                     Inl e \<Rightarrow> (Inl e, w)
                                   | Inr slack \<Rightarrow>
                                       let n = notifyTaskCreated env slack w lead createdTask
                                                 slackUserIds channelId;
                                           w = push w (NotifyTaskCreated lead createdTask
                                                 slackUserIds channelId n)
                                       in case n of
                                            Inl e \<Rightarrow> (Inl e, w)
                                          | Inr u \<Rightarrow>
                                              (Inr \<lparr> success = True, taskCreated = True,
                                                      taskId = Some (resp_id createdTask),
                                                      taskUrl = Some (url createdTask),
                                                      slackNotified = True, error = None \<rparr>,
                                               push w (ConsoleLog (pictoCheck @
                                                 '' Slack notification sent to #front-desk''))))"

text \<open>
  The whole function: the \<open>catch\<close> clause turns a thrown value into a result. The
  function is \<open>async\<close>; \<open>Inl\<close> would be a rejected promise.
\<close>

definition processLeadToTask :: "Env \<Rightarrow> Lead \<Rightarrow> World \<Rightarrow> (Exn + LeadToTaskResult) \<times> World" where
  "processLeadToTask env lead w =
     (case processLeadToTask_try env lead w of
        (Inr r, w') \<Rightarrow> (Inr r, w')
      | (Inl e, w') \<Rightarrow>
          (Inr \<lparr> success = False, taskCreated = False, taskId = None, taskUrl = None,
                  slackNotified = False, error = Some (message e) \<rparr>,
           push w' (ConsoleError (pictoCross @ '' Error in lead-to-task workflow:'') e)))"

definition delay :: "int \<Rightarrow> World \<Rightarrow> World" where
  "delay ms w = push w (Delay ms)"

text \<open>
  The \<open>for\<close> loop of \<open>processMultipleLeads\<close>, with \<open>results\<close> as accumulator. The
  loop has no handler: a rejected \<open>processLeadToTask\<close> would end it.
\<close>

fun processMultipleLeads_loop ::
  "Env \<Rightarrow> Lead list \<Rightarrow> LeadToTaskResult list \<Rightarrow> World \<Rightarrow> (Exn + LeadToTaskResult list) \<times> World" where
  "processMultipleLeads_loop env [] results w = (Inr results, w)"
| "processMultipleLeads_loop env (lead # rest) results w =
     (case processLeadToTask env lead w of
        (Inl e, w') \<Rightarrow> (Inl e, w')
      | (Inr result, w') \<Rightarrow>
          processMultipleLeads_loop env rest (push results result) (delay 1000 w'))"

definition processMultipleLeads :: "Env \<Rightarrow> Lead list \<Rightarrow> World \<Rightarrow> (Exn + LeadToTaskResult list) \<times> World" where
  "processMultipleLeads env leads w = processMultipleLeads_loop env leads [] w"

text \<open>
  Two stretches of the \<open>try\<close> block, named for the proofs: \<open>notifyStage\<close> is
  steps 6 to 9 (from the channel lookup on), \<open>createStage\<close> is steps 3 to 5 followed
  by \<open>notifyStage\<close>. Lemma \<open>processLeadToTask_try_stages\<close> shows that
  \<open>processLeadToTask_try\<close> is steps 1 and 2 followed by \<open>createStage\<close>.
\<close>

definition notifyStage ::
  "Env \<Rightarrow> Lead \<Rightarrow> ClickUpTaskResponse \<Rightarrow> World \<Rightarrow> (Exn + LeadToTaskResult) \<times> World" where
  "notifyStage env lead createdTask w =
     (let channelId = getFrontDeskChannelId env
      in if \<not> truthy channelId
         then (Inr \<lparr> success = True, taskCreated = True,
                      taskId = Some (resp_id createdTask),
                      taskUrl = Some (url createdTask),
                      slackNotified = False, error = None \<rparr>,
               push w (ConsoleWarn (pictoWarning @
                 '' No Slack channel configured, skipping notification'')))
         else
           let slackUserIds = getFrontDeskSlackIds env;
               w = (if length slackUserIds = 0
                    then push w (ConsoleWarn (pictoWarning @
                           '' No Slack users configured, posting without mentions''))
                    else w)
           in case getSlackClient env of
                Inl e \<Rightarrow> (Inl e, w)
              | Inr slack \<Rightarrow>
                  let n = notifyTaskCreated env slack w lead createdTask slackUserIds channelId;
                      w = push w (NotifyTaskCreated lead createdTask slackUserIds channelId n)
                  in case n of
                       Inl e \<Rightarrow> (Inl e, w)
                     | Inr u \<Rightarrow>
                         (Inr \<lparr> success = True, taskCreated = True,
                                 taskId = Some (resp_id createdTask),
                                 taskUrl = Some (url createdTask),
                                 slackNotified = True, error = None \<rparr>,
                          push w (ConsoleLog (pictoCheck @
                            '' Slack notification sent to #front-desk''))))"

definition createStage ::
  "Env \<Rightarrow> Lead \<Rightarrow> string \<Rightarrow> World \<Rightarrow> (Exn + LeadToTaskResult) \<times> World" where
  "createStage env lead lid w =
     (let asg = getFrontDeskClickUpIds env;
          w = (if length asg = 0
               then push w (ConsoleWarn (pictoWarning @
                      '' No Front Desk team members configured, creating unassigned task''))
               else w);
          taskData = buildTaskFromLead (toLocaleDateString env) (timeZone env) (clock env w)
                       lead lid asg
      in case getClickUpClient env of
           Inl e \<Rightarrow> (Inl e, w)
         | Inr clickup \<Rightarrow>
             let r = createTask env clickup w taskData;
                 w = push w (CreateTask taskData r)
             in case r of
                  Inl e \<Rightarrow> (Inl e, w)
                | Inr createdTask \<Rightarrow>
                    notifyStage env lead createdTask
                      (push w (ConsoleLog (pictoCheck @ '' ClickUp task created: '' @
                         resp_id createdTask @ '' - '' @ resp_name createdTask))))"

text \<open>The events a run added to the trace \<open>w\<close>, given the trace \<open>w'\<close> it left.\<close>

definition newEvents :: "World \<Rightarrow> World \<Rightarrow> Event list" where
  "newEvents w w' = drop (length w) w'"

text \<open>The events that are calls of the task store or of the messaging client.\<close>

fun isExternalCall :: "Event \<Rightarrow> bool" where
  "isExternalCall (CreateTask task r) = True"
| "isExternalCall (NotifyTaskCreated lead task ids channel r) = True"
| "isExternalCall e = False"

section \<open>The rules as the specification words them\<close>

text \<open>A text field is present when it is defined and not the empty string.\<close>

definition present :: "string option \<Rightarrow> bool" where
  "present v = (v \<noteq> None \<and> v \<noteq> Some [])"

definition tier4_rule :: "'a PartialLead_scheme \<Rightarrow> bool" where
  "tier4_rule lead =
     (present (firstName lead) \<and> present (lastName lead) \<and> present (phone lead) \<and>
      present (email lead) \<and> present (specificCondition lead) \<and>
      (isPregnant lead \<noteq> None \<or> present (birthDate lead)))"

definition tier3_rule :: "'a PartialLead_scheme \<Rightarrow> bool" where
  "tier3_rule lead =
     (present (firstName lead) \<and> present (lastName lead) \<and> present (phone lead) \<and>
      present (email lead) \<and> present (condition lead))"

definition tier2_rule :: "'a PartialLead_scheme \<Rightarrow> bool" where
  "tier2_rule lead = (present (phone lead) \<and> present (email lead))"

text \<open>A counter reaches \<open>k\<close> when it is there and at least \<open>k\<close>.\<close>

definition reaches :: "int option \<Rightarrow> int \<Rightarrow> bool" where
  "reaches v k = (case v of None \<Rightarrow> False | Some n \<Rightarrow> k \<le> n)"

text \<open>
  The time value the zone gives to \<open>h\<close> o'clock sharp on the local day number \<open>d\<close>.
\<close>

definition atHour :: "TimeZone \<Rightarrow> int \<Rightarrow> int \<Rightarrow> int" where
  "atHour tz d h = UTC tz (MakeDate d (MakeTime h 0 0 0))"

text \<open>
  A local time is on the clock of the zone when reading it and taking local time again
  gives it back: no change of the clock skips it.
\<close>

definition onClock :: "TimeZone \<Rightarrow> int \<Rightarrow> bool" where
  "onClock tz x = (LocalTime tz (UTC tz x) = x)"

section \<open>Sample data\<close>

text \<open>The three leads of the workflow's test script (scripts/test-workflow).\<close>

definition testLead_tier4 :: Lead where
  "testLead_tier4 =
     \<lparr> ghlContactId = None, chiroHdLeadId = None, clickupTaskId = None,
       firstName = Some ''Sarah'', lastName = Some ''Johnson'',
       phone = Some ''+15551234567'', email = Some ''sarah.johnson@example.com'',
       socialHandle = None, condition = Some ''Severe back pain - can barely walk'',
       specificCondition = None, isPregnant = None, birthDate = None,
       emailsOpened = Some 5, emailsClicked = Some 3, smsReplied = None,
       lastEngagement = None, campaignName = None, convertedAt = None,
       lead_notes = None, tags = None,
       lead_id = ''test-tier4-001'', tier = 4, source = WebsiteForm, temperature = Hot,
       stage = ActionReady, createdAt = ''2025-12-17T14:00:00.000Z'',
       updatedAt = ''2025-12-17T14:00:00.000Z'' \<rparr>"

definition testLead_tier3 :: Lead where
  "testLead_tier3 =
     \<lparr> ghlContactId = None, chiroHdLeadId = None, clickupTaskId = None,
       firstName = Some ''Michael'', lastName = Some ''Rodriguez'',
       phone = Some ''+15559876543'', email = Some ''michael.r@example.com'',
       socialHandle = None, condition = Some ''Neck pain and headaches'',
       specificCondition = None, isPregnant = None, birthDate = None,
       emailsOpened = Some 2, emailsClicked = Some 1, smsReplied = None,
       lastEngagement = None, campaignName = None, convertedAt = None,
       lead_notes = None, tags = None,
       lead_id = ''test-tier3-002'', tier = 3, source = Referral, temperature = Warm,
       stage = Engaged, createdAt = ''2025-12-17T14:00:00.000Z'',
       updatedAt = ''2025-12-17T14:00:00.000Z'' \<rparr>"

definition testLead_tier2 :: Lead where
  "testLead_tier2 =
     \<lparr> ghlContactId = None, chiroHdLeadId = None, clickupTaskId = None,
       firstName = Some ''Jessica'', lastName = Some ''Chen'',
       phone = Some ''+15554567890'', email = Some ''jchen@example.com'',
       socialHandle = None, condition = Some ''General wellness check'',
       specificCondition = None, isPregnant = None, birthDate = None,
       emailsOpened = Some 1, emailsClicked = Some 0, smsReplied = None,
       lastEngagement = None, campaignName = None, convertedAt = None,
       lead_notes = None, tags = None,
       lead_id = ''test-tier2-003'', tier = 2, source = Referral, temperature = Warm,
       stage = Engaged, createdAt = ''2025-12-17T14:00:00.000Z'',
       updatedAt = ''2025-12-17T14:00:00.000Z'' \<rparr>"

text \<open>A full intake: the first lead with a detailed condition and the pregnancy flag.\<close>

definition fullIntakeLead :: Lead where
  "fullIntakeLead =
     testLead_tier4 \<lparr> specificCondition := Some ''L5 disc herniation'', isPregnant := Some False \<rparr>"

text \<open>A lead whose tier is outside 1 to 4.\<close>

definition tier7Lead :: Lead where
  "tier7Lead = testLead_tier4 \<lparr> tier := 7 \<rparr>"

text \<open>
  Time zones. \<open>utcZone\<close> is UTC. \<open>zoneWithDst s a b\<close> has the standard offset
  \<open>s\<close> and an hour of daylight saving from the time value \<open>a\<close> up to \<open>b\<close>; a local
  time that the change skips or repeats is read by the offset before the change, as
  the language standard asks. \<open>newYork2026\<close> is America/New_York by its rules for
  2026 (UTC-5, daylight saving from 2026-03-08 07:00 UTC to 2026-11-01 06:00 UTC),
  \<open>nuuk2026\<close> is America/Nuuk (UTC-2, daylight saving from 2026-03-29 01:00 UTC to
  2026-10-25 01:00 UTC: the clock goes from Saturday 23:00 to Sunday 00:00).
\<close>

definition utcZone :: TimeZone where
  "utcZone = \<lparr> standardOffset = 0, dstSaving = OneHour,
               dstAtUTC = (\<lambda>t. False), dstAtLocal = (\<lambda>t. False) \<rparr>"

definition zoneWithDst :: "int \<Rightarrow> int \<Rightarrow> int \<Rightarrow> TimeZone" where
  "zoneWithDst s a b =
     \<lparr> standardOffset = s, dstSaving = OneHour,
       dstAtUTC = (\<lambda>t. a \<le> t \<and> t < b),
       dstAtLocal = (\<lambda>t. a + s + 3600000 \<le> t \<and> t < b + s + 3600000) \<rparr>"

definition newYork2026 :: TimeZone where
  "newYork2026 = zoneWithDst (- 18000000) 1772953200000 1793512800000"

definition nuuk2026 :: TimeZone where
  "nuuk2026 = zoneWithDst (- 7200000) 1774746000000 1792890000000"

text \<open>
  A configured environment: UTC, the clock at 2025-12-17 14:00:00, one list per tier,
  a channel, the team table as the source has it (no identifiers yet), both tokens, and
  clients that answer.
\<close>

definition sampleResponse :: "ClickUpTask \<Rightarrow> ClickUpTaskResponse" where
  "sampleResponse task =
     \<lparr> resp_id = ''86a1'', resp_name = name task, resp_status = \<lparr> status_status = ''open'', status_type = ''open'' \<rparr>,
       date_created = ''1765980000000'', date_updated = ''1765980000000'',
       resp_assignees = [], url = ''https://app.clickup.com/t/86a1'' \<rparr>"

definition sampleEnv :: Env where
  "sampleEnv =
     \<lparr> timeZone = utcZone,
       clock = (\<lambda>w. 1765980000000),
       toLocaleDateString = take 10,
       lists = \<lparr> tier4Urgent = ''901708714009'', tier3High = ''901708714010'',
                 tier2Normal = ''901708714011'', tier1Low = ''901708714012'' \<rparr>,
       frontDeskChannel = ''C0FRONTDESK'',
       FRONT_DESK_TEAM =
         [\<lparr> member_name = ''Lou Ann'', member_email = ''louann@vanevery.com'',
             clickupId = None, slackId = None, role = Manager \<rparr>,
          \<lparr> member_name = ''Christina'', member_email = ''christina@vanevery.com'',
             clickupId = None, slackId = None, role = FrontDesk \<rparr>,
          \<lparr> member_name = ''Tricia'', member_email = ''tricia@vanevery.com'',
             clickupId = None, slackId = None, role = FrontDesk \<rparr>,
          \<lparr> member_name = ''Wendy'', member_email = ''wendy@vanevery.com'',
             clickupId = None, slackId = None, role = FrontDesk \<rparr>],
       CLICKUP_API_TOKEN = Some ''pk_token'',
       SLACK_BOT_TOKEN = Some ''xoxb-token'',
       createTask = (\<lambda>c w task. Inr (sampleResponse task)),
       notifyTaskCreated = (\<lambda>c w lead task ids channel. Inr ()) \<rparr>"

text \<open>The same with a messaging client that fails.\<close>

definition slackDownEnv :: Env where
  "slackDownEnv =
     sampleEnv \<lparr> notifyTaskCreated :=
       (\<lambda>c w lead task ids channel. Inl (Error ''Slack API error: channel_not_found'')) \<rparr>"

text \<open>The same with no list identifier in the process environment.\<close>

definition noListEnv :: Env where
  "noListEnv =
     sampleEnv \<lparr> lists := \<lparr> tier4Urgent = [], tier3High = [], tier2Normal = [], tier1Low = [] \<rparr> \<rparr>"

text \<open>The same with a task store that refuses the tier-3 list.\<close>

definition storeErrorEnv :: Env where
  "storeErrorEnv =
     sampleEnv \<lparr> createTask :=
       (\<lambda>c w task. if listId task = ''901708714010''
                   then Inl (Error ''Request failed with status code 401'')
                   else Inr (sampleResponse task)) \<rparr>"

section \<open>The tier classifier and the readiness gate\<close>

lemma truthyStr_present: "truthyStr v = present v"
  by (cases v) (simp_all add: truthyStr_def truthy_def present_def)

lemma orZero_Some: "orZero (Some n) = n"
  by (simp add: orZero_def truthyNum_def)

lemma orZero_None: "orZero None = 0"
  by (simp add: orZero_def truthyNum_def)

lemma orZero_reaches: "0 < k \<Longrightarrow> (k \<le> orZero v) = reaches v k"
  by (cases v) (simp_all add: orZero_Some orZero_None reaches_def)

text \<open>
  Claim C3. For every partial lead, \<open>calculateLeadTier\<close> returns exactly one tier by
  a ladder read top-down, the first match winning: 4 when first name, last name,
  phone, email and detailed condition are present and the pregnancy flag is set or the
  birth date is present; else 3 when first name, last name, phone, email and general
  condition are present; else 2 when phone and email are present; else 1. So the
  result is one of 1, 2, 3, 4, and a lead under both the tier-4 and the tier-3 rule
  gets 4. A text field is present when it is defined and not empty; the flag is set
  when it is defined, be it true or false.
\<close>

theorem calculateLeadTier_ladder:
  "calculateLeadTier lead =
     (if tier4_rule lead then 4 else if tier3_rule lead then 3 else if tier2_rule lead then 2 else 1)
   \<and> calculateLeadTier lead \<in> {1, 2, 3, 4}
   \<and> (tier4_rule lead \<and> tier3_rule lead \<longrightarrow> calculateLeadTier lead = 4)"
  by (simp add: calculateLeadTier_def tier4_rule_def tier3_rule_def tier2_rule_def truthyStr_present)

theorem calculateLeadTier_ladder_witness:
  "tier4_rule fullIntakeLead \<and> tier3_rule fullIntakeLead \<and> calculateLeadTier fullIntakeLead = 4
   \<and> calculateLeadTier testLead_tier4 = 3"
  using calculateLeadTier_ladder [of fullIntakeLead] calculateLeadTier_ladder [of testLead_tier4]
  by (simp add: tier4_rule_def tier3_rule_def tier2_rule_def present_def fullIntakeLead_def
        testLead_tier4_def)

text \<open>
  Claim C4. For every lead, \<open>isActionReady\<close> is true exactly under the rule of the
  lead's tier: tier 4 when the stage is engaged or action-ready; tier 3 when two emails
  were opened and one was clicked; tier 2 when three emails were opened or one was
  clicked; tier 1 when the stage is action-ready. For a tier outside 1 to 4 it is false.
  A counter that is absent reaches no threshold.
\<close>

theorem isActionReady_rule:
  "isActionReady lead =
     ((tier lead = 4 \<and> (stage lead = Engaged \<or> stage lead = ActionReady)) \<or>
      (tier lead = 3 \<and> reaches (emailsOpened lead) 2 \<and> reaches (emailsClicked lead) 1) \<or>
      (tier lead = 2 \<and> (reaches (emailsOpened lead) 3 \<or> reaches (emailsClicked lead) 1)) \<or>
      (tier lead = 1 \<and> stage lead = ActionReady))
   \<and> (tier lead \<notin> {1, 2, 3, 4} \<longrightarrow> \<not> isActionReady lead)"
  by (simp add: isActionReady_def orZero_reaches)

theorem isActionReady_rule_witness:
  "isActionReady testLead_tier4 \<and> isActionReady testLead_tier3 \<and> \<not> isActionReady testLead_tier2
   \<and> tier tier7Lead \<notin> {1, 2, 3, 4} \<and> \<not> isActionReady tier7Lead"
  using isActionReady_rule [of testLead_tier4] isActionReady_rule [of testLead_tier3]
    isActionReady_rule [of testLead_tier2] isActionReady_rule [of tier7Lead]
  by (simp add: reaches_def testLead_tier4_def testLead_tier3_def testLead_tier2_def tier7Lead_def)

section \<open>The task builder\<close>

text \<open>
  Claim C5. \<open>calculateTaskPriority\<close> maps tier 4 to urgent, 3 to high, 2 to normal and
  1 to low, and every other tier to normal.
\<close>

theorem calculateTaskPriority_table:
  "calculateTaskPriority 4 = Urgent \<and> calculateTaskPriority 3 = High \<and>
   calculateTaskPriority 2 = Normal \<and> calculateTaskPriority 1 = Low \<and>
   (\<forall>t. t \<notin> {1, 2, 3, 4} \<longrightarrow> calculateTaskPriority t = Normal)"
  by (simp add: calculateTaskPriority_def)

theorem calculateTaskPriority_table_witness:
  "calculateTaskPriority 7 = Normal \<and> calculateTaskPriority 0 = Normal \<and>
   calculateTaskPriority (- 1) = Normal"
  using calculateTaskPriority_table by simp

subsection \<open>Dates\<close>

text \<open>\<open>YearFromTime\<close> meets its specification: the year found is the largest one that has begun.\<close>

lemma div_bounds:
  fixes a c :: int
  assumes "0 < c"
  shows "c * (a div c) \<le> a" and "a < c * (a div c) + c"
proof -
  have "a = c * (a div c) + a mod c" by simp
  moreover have "0 \<le> a mod c" "a mod c < c" using assms by simp_all
  ultimately show "c * (a div c) \<le> a" and "a < c * (a div c) + c" by linarith+
qed

lemma DayFromYear_window:
  fixes d :: int
  defines "y \<equiv> 1970 + (400 * d) div 146097"
  shows "DayFromYear (y - 1) \<le> d" and "d < DayFromYear (y + 2)"
proof -
  define k where "k = (400 * d) div 146097"
  have k: "146097 * k \<le> 400 * d" "400 * d < 146097 * k + 146097"
    unfolding k_def using div_bounds [of 146097 "400 * d"] by simp_all
  have y: "y = 1970 + k" by (simp add: y_def k_def)
  define a b c where "a = k div 4" and "b = (k + 68) div 100" and "c = (k + 368) div 400"
  have "4 * a \<le> k" unfolding a_def using div_bounds(1) [of 4 k] by simp
  moreover have "k < 100 * b + 32" unfolding b_def using div_bounds(2) [of 100 "k + 68"] by simp
  moreover have "400 * c \<le> k + 368" unfolding c_def using div_bounds(1) [of 400 "k + 368"] by simp
  moreover have "DayFromYear (y - 1) + 365 + b = 365 * k + a + c"
    by (simp add: DayFromYear_def y a_def b_def c_def add.commute)
  ultimately show "DayFromYear (y - 1) \<le> d" using k by linarith
  define a' b' c' where "a' = (k + 3) div 4" and "b' = (k + 71) div 100" and "c' = (k + 371) div 400"
  have "k < 4 * a' + 1" unfolding a'_def using div_bounds(2) [of 4 "k + 3"] by simp
  moreover have "100 * b' \<le> k + 71" unfolding b'_def using div_bounds(1) [of 100 "k + 71"] by simp
  moreover have "k < 400 * c' + 29" unfolding c'_def using div_bounds(2) [of 400 "k + 371"] by simp
  moreover have "DayFromYear (y + 2) + b' = 365 * k + 730 + a' + c'"
    by (simp add: DayFromYear_def y a'_def b'_def c'_def add.commute)
  ultimately show "d < DayFromYear (y + 2)" using k by linarith
qed

lemma YearFromTime_largest:
  "DayFromYear (YearFromTime t) \<le> Day t \<and> Day t < DayFromYear (YearFromTime t + 1)"
  using DayFromYear_window [of "Day t"]
  by (simp add: YearFromTime_def Let_def)

lemma MonthFromTime_range: "0 \<le> MonthFromTime t \<and> MonthFromTime t \<le> 11"
  by (simp add: MonthFromTime_def Let_def)

lemma MakeDay_of_fields:
  "MakeDay (YearFromTime t) (MonthFromTime t) (DateFromTime t + n) = Day t + n"
proof -
  have m: "MonthFromTime t div 12 = 0" "MonthFromTime t mod 12 = MonthFromTime t"
    using MonthFromTime_range [of t] by simp_all
  show ?thesis
    by (simp add: MakeDay_def Let_def m DateFromTime_def DayWithinYear_def InLeapYear_def)
qed

text \<open>The offset of a zone lies between its standard offset and an hour more.\<close>

lemma LocalTZA_bounds:
  "standardOffset tz \<le> LocalTZA tz t b" "LocalTZA tz t b \<le> standardOffset tz + msPerHour"
  by (cases "dstSaving tz"; simp add: LocalTZA_def msPerHour_def)+

lemma LocalTime_bounds:
  "t + standardOffset tz \<le> LocalTime tz t" "LocalTime tz t \<le> t + standardOffset tz + msPerHour"
  using LocalTZA_bounds [of tz t True] by (simp_all add: LocalTime_def)

lemma UTC_bounds:
  "x - standardOffset tz - msPerHour \<le> UTC tz x" "UTC tz x \<le> x - standardOffset tz"
  using LocalTZA_bounds [of tz x False] by (simp_all add: UTC_def)

lemma setDate_getDate:
  "setDate tz t (getDate tz t + n) = UTC tz (LocalTime tz t + n * msPerDay)"
proof -
  have "MakeDate (Day lt + n) (TimeWithinDay lt) = lt + n * msPerDay" for lt
    by (simp add: MakeDate_def Day_def TimeWithinDay_def algebra_simps)
  then show ?thesis
    by (simp add: setDate_def getDate_def Let_def MakeDay_of_fields)
qed

lemma time_fields:
  "Day t * msPerDay + MakeTime (HourFromTime t) (MinFromTime t) (SecFromTime t) (msFromTime t) = t"
proof -
  have m: "t div 60000 = t div 1000 div 60" using zdiv_zmult2_eq [of 60 t 1000] by simp
  have h: "t div 3600000 = t div 60000 div 60" using zdiv_zmult2_eq [of 60 t 60000] by simp
  have d: "t div 86400000 = t div 3600000 div 24" using zdiv_zmult2_eq [of 24 t 3600000] by simp
  have 1: "t = 1000 * (t div 1000) + t mod 1000" by simp
  have 2: "t div 1000 = 60 * (t div 60000) + (t div 1000) mod 60" unfolding m by simp
  have 3: "t div 60000 = 60 * (t div 3600000) + (t div 60000) mod 60" unfolding h by simp
  have 4: "t div 3600000 = 24 * (t div 86400000) + (t div 3600000) mod 24" unfolding d by simp
  show ?thesis
    unfolding Day_def MakeTime_def HourFromTime_def MinFromTime_def SecFromTime_def msFromTime_def
      msPerDay_def msPerHour_def msPerMinute_def msPerSecond_def
    using 1 2 3 4 by linarith
qed

lemma setHours1_getHours:
  "setHours1 tz t (getHours tz t + n) = UTC tz (LocalTime tz t + n * msPerHour)"
proof -
  have "MakeDate (Day lt) (MakeTime (HourFromTime lt + n) (MinFromTime lt) (SecFromTime lt) (msFromTime lt))
        = lt + n * msPerHour" for lt
    using time_fields [of lt] by (simp add: MakeDate_def MakeTime_def algebra_simps)
  then show ?thesis
    by (simp add: setHours1_def getHours_def Let_def)
qed

lemma setHours4_atHour: "setHours4 tz t h 0 0 0 = atHour tz (Day (LocalTime tz t)) h"
  by (simp add: setHours4_def atHour_def Let_def)


text \<open>A local time lies in its day, and before the end of its hour.\<close>

lemma Day_bounds: "Day x * msPerDay \<le> x" "x < Day x * msPerDay + msPerDay"
proof -
  have "x = 86400000 * (x div 86400000) + x mod 86400000" by simp
  moreover have "0 \<le> x mod 86400000" "x mod 86400000 < 86400000" by simp_all
  ultimately show "Day x * msPerDay \<le> x" "x < Day x * msPerDay + msPerDay"
    unfolding Day_def msPerDay_def by linarith+
qed

lemma before_end_of_hour: "x < Day x * msPerDay + (HourFromTime x + 1) * msPerHour"
proof -
  have "MinFromTime x \<le> 59" "SecFromTime x \<le> 59" "msFromTime x \<le> 999"
    by (simp_all add: MinFromTime_def SecFromTime_def msFromTime_def msPerSecond_def
          zle_diff1_eq [of _ 60, simplified] zle_diff1_eq [of _ 1000, simplified])
  with time_fields [of x] show ?thesis
    by (simp add: MakeTime_def msPerHour_def msPerMinute_def msPerSecond_def algebra_simps)
qed

text \<open>
  On the clock of the zone, \<open>atHour tz d h\<close> is read as day \<open>d\<close>, \<open>h\<close> o'clock.
\<close>

lemma atHour_fields:
  assumes "0 \<le> h" "h < 24" "onClock tz (MakeDate d (MakeTime h 0 0 0))"
  shows "Day (LocalTime tz (atHour tz d h)) = d" and "getHours tz (atHour tz d h) = h"
    and "TimeWithinDay (LocalTime tz (atHour tz d h)) = h * msPerHour"
proof -
  have lt: "LocalTime tz (atHour tz d h) = d * 86400000 + h * 3600000"
    using assms(3)
    by (simp add: atHour_def onClock_def MakeDate_def MakeTime_def msPerDay_def msPerHour_def)
  have r: "0 \<le> h * 3600000" "h * 3600000 < 86400000" using assms by simp_all
  have e: "d * 86400000 + h * 3600000 = h * 3600000 + 86400000 * d" by simp
  show "Day (LocalTime tz (atHour tz d h)) = d"
    unfolding lt Day_def msPerDay_def e using r by (simp add: div_pos_pos_trivial)
  show "TimeWithinDay (LocalTime tz (atHour tz d h)) = h * msPerHour"
    unfolding lt TimeWithinDay_def msPerDay_def msPerHour_def e using r by (simp add: mod_pos_pos_trivial)
  have e2: "d * 86400000 + h * 3600000 = (d * 24 + h) * 3600000" by simp
  show "getHours tz (atHour tz d h) = h"
    unfolding getHours_def lt HourFromTime_def msPerHour_def e2 using assms by simp
qed

text \<open>In a zone without daylight saving every local time is on the clock.\<close>

lemma fixed_zone:
  assumes "\<And>t. \<not> dstAtUTC tz t" and "\<And>t. \<not> dstAtLocal tz t"
  shows "LocalTZA tz t b = standardOffset tz" and "onClock tz x"
  using assms by (simp_all add: LocalTZA_def onClock_def LocalTime_def UTC_def)

subsection \<open>Due dates\<close>

lemma setDate_then_17:
  "setHours4 tz (setDate tz t (getDate tz t + n)) 17 0 0 0 =
     atHour tz (Day (LocalTime tz (UTC tz (LocalTime tz t + n * msPerDay)))) 17"
  by (simp only: setDate_getDate setHours4_atHour)


lemma calculateDueDate_tier4:
  "calculateDueDate tz now 4 = UTC tz (LocalTime tz now + 2 * msPerHour)"
  by (simp add: calculateDueDate_def setHours1_getHours)

lemma calculateDueDate_tier3:
  "calculateDueDate tz now 3 =
     (if getHours tz now < 15 then atHour tz (Day (LocalTime tz now)) 17
      else atHour tz (Day (LocalTime tz (UTC tz (LocalTime tz now + 1 * msPerDay)))) 17)"
  unfolding calculateDueDate_def setDate_then_17 by (simp add: setHours4_atHour)

lemma calculateDueDate_tier2:
  "calculateDueDate tz now 2 =
     atHour tz (Day (LocalTime tz (UTC tz (LocalTime tz now + 1 * msPerDay)))) 17"
  unfolding calculateDueDate_def setDate_then_17 by simp

lemma calculateDueDate_tier1:
  "calculateDueDate tz now 1 =
     atHour tz (Day (LocalTime tz (UTC tz (LocalTime tz now + 2 * msPerDay)))) 17"
  unfolding calculateDueDate_def setDate_then_17 by simp


lemmas zone_eval = LocalTime_def UTC_def LocalTZA_def utcZone_def zoneWithDst_def newYork2026_def
  nuuk2026_def onClock_def atHour_def MakeDate_def MakeTime_def Day_def getHours_def
  HourFromTime_def msPerDay_def msPerHour_def msPerMinute_def msPerSecond_def



text \<open>
  Why the later-day cases ask for a local time that is on the clock. In Nuuk the clock
  goes from Saturday 2026-03-28 23:00 to Sunday 00:00. On Friday at 23:30 local time
  (2026-03-28 01:30 UTC) \<open>setDate\<close> asks for Saturday 23:30, which the change skips: the
  date comes to stand on Sunday 00:30, and the tier-2 due date is Sunday 17:00 local
  time (18:00 UTC), a day after 17:00 of the next calendar day (Saturday, 19:00 UTC).
\<close>

lemma tier2_skipped_local_time:
  "\<not> onClock nuuk2026 (LocalTime nuuk2026 1774661400000 + 1 * msPerDay) \<and>
   calculateDueDate nuuk2026 1774661400000 2 = 1774807200000 \<and>
   atHour nuuk2026 (Day (LocalTime nuuk2026 1774661400000) + 1) 17 = 1774724400000"
  by (simp add: calculateDueDate_tier2 zone_eval)

text \<open>For a tier from 1 to 4 the due date is later than \<open>now\<close>, in every zone.\<close>

lemma atHour_lower: "d * msPerDay + h * msPerHour - standardOffset tz - msPerHour \<le> atHour tz d h"
  using UTC_bounds(1) [of "MakeDate d (MakeTime h 0 0 0)" tz]
  by (simp add: atHour_def MakeDate_def MakeTime_def)

lemma later_day_17_after_now:
  assumes "1 \<le> n"
  shows "now < atHour tz (Day (LocalTime tz (UTC tz (LocalTime tz now + n * msPerDay)))) 17"
proof -
  define lt where "lt = LocalTime tz now"
  define u where "u = UTC tz (lt + n * msPerDay)"
  define d where "d = Day (LocalTime tz u)"
  have 1: "now + standardOffset tz \<le> lt" unfolding lt_def by (rule LocalTime_bounds)
  have 2: "lt + n * msPerDay - standardOffset tz - msPerHour \<le> u"
    unfolding u_def by (rule UTC_bounds)
  have 3: "u + standardOffset tz \<le> LocalTime tz u" by (rule LocalTime_bounds)
  have 4: "LocalTime tz u < d * msPerDay + msPerDay" unfolding d_def by (rule Day_bounds)
  have 5: "d * msPerDay + 17 * msPerHour - standardOffset tz - msPerHour \<le> atHour tz d 17"
    by (rule atHour_lower)
  have 6: "msPerDay \<le> n * msPerDay" using assms by (simp add: msPerDay_def)
  have "now < atHour tz d 17"
    using 1 2 3 4 5 6 unfolding msPerDay_def msPerHour_def by linarith
  then show ?thesis by (simp add: d_def u_def lt_def)
qed

lemma calculateDueDate_moves:
  assumes "tr \<in> {1, 2, 3, 4}"
  shows "calculateDueDate tz now tr \<noteq> now"
proof -
  have four: "now < calculateDueDate tz now 4"
    using LocalTime_bounds(1) [of now tz] UTC_bounds(1) [of "LocalTime tz now + 2 * msPerHour" tz]
    by (simp add: calculateDueDate_tier4 msPerHour_def)
  have same: "now < atHour tz (Day (LocalTime tz now)) 17" if "getHours tz now < 15"
  proof -
    have "LocalTime tz now < Day (LocalTime tz now) * msPerDay + 15 * msPerHour"
      using before_end_of_hour [of "LocalTime tz now"] that
      by (simp add: getHours_def msPerHour_def)
    with LocalTime_bounds(1) [of now tz] atHour_lower [of "Day (LocalTime tz now)" 17 tz]
    show ?thesis by (simp add: msPerHour_def)
  qed
  have three: "now < calculateDueDate tz now 3"
    using same later_day_17_after_now [of 1 now tz] by (simp add: calculateDueDate_tier3)
  have two: "now < calculateDueDate tz now 2"
    using later_day_17_after_now [of 1 now tz] by (simp add: calculateDueDate_tier2)
  have one: "now < calculateDueDate tz now 1"
    using later_day_17_after_now [of 2 now tz] by (simp add: calculateDueDate_tier1)
  from assms four three two one show ?thesis by auto
qed

text \<open>
  Claim C2, as the code has it. The task always carries a due date. For every tier
  outside 1 to 4 it is the moment \<open>now\<close> itself, unchanged, and this is the only branch
  of the due-date computation that leaves \<open>now\<close> unchanged: for a tier from 1 to 4 the
  due date differs from \<open>now\<close>.
\<close>

theorem unlisted_tier_dueDate_is_now:
  "dueDate (buildTaskFromLead f tz now lead lid asg) = Some (calculateDueDate tz now (tier lead)) \<and>
   (tier lead \<notin> {1, 2, 3, 4} \<longrightarrow> dueDate (buildTaskFromLead f tz now lead lid asg) = Some now) \<and>
   (tier lead \<in> {1, 2, 3, 4} \<longrightarrow> dueDate (buildTaskFromLead f tz now lead lid asg) \<noteq> Some now)"
proof -
  have "calculateDueDate tz now (tier lead) = now" if "tier lead \<notin> {1, 2, 3, 4}"
    using that by (simp add: calculateDueDate_def)
  moreover have "calculateDueDate tz now (tier lead) \<noteq> now" if "tier lead \<in> {1, 2, 3, 4}"
    using that by (rule calculateDueDate_moves)
  ultimately show ?thesis by (simp add: buildTaskFromLead_def)
qed

text \<open>
  Claim C2 as worded says that for a tier outside 1 to 4 the due-date field is left
  absent. For the lead of tier 7 the field is there and holds the time of the call.
\<close>

theorem unlisted_tier_dueDate_absent_counterexample:
  "tier tier7Lead \<notin> {1, 2, 3, 4} \<and>
   dueDate (buildTaskFromLead (take 10) utcZone 1765980000000 tier7Lead ''901708714011'' [])
     = Some 1765980000000 \<and>
   dueDate (buildTaskFromLead (take 10) utcZone 1765980000000 tier7Lead ''901708714011'' []) \<noteq> None"
  by (simp add: buildTaskFromLead_def calculateDueDate_def tier7Lead_def testLead_tier4_def)

theorem unlisted_tier_dueDate_is_now_witness:
  "tier tier7Lead \<notin> {1, 2, 3, 4} \<and>
   dueDate (buildTaskFromLead (take 10) utcZone 1765980000000 tier7Lead ''901708714011'' [])
     = Some 1765980000000 \<and>
   tier testLead_tier4 \<in> {1, 2, 3, 4} \<and>
   dueDate (buildTaskFromLead (take 10) utcZone 1765980000000 testLead_tier4 ''901708714009'' [])
     \<noteq> Some 1765980000000"
proof -
  have a: "tier tier7Lead \<notin> {1, 2, 3, 4}" by (simp add: tier7Lead_def)
  have b: "tier testLead_tier4 \<in> {1, 2, 3, 4}" by (simp add: testLead_tier4_def)
  from a unlisted_tier_dueDate_is_now [of "take 10" utcZone 1765980000000 tier7Lead "''901708714011''" "[]"]
  have c: "dueDate (buildTaskFromLead (take 10) utcZone 1765980000000 tier7Lead ''901708714011'' [])
             = Some 1765980000000" by blast
  from b unlisted_tier_dueDate_is_now [of "take 10" utcZone 1765980000000 testLead_tier4 "''901708714009''" "[]"]
  have d: "dueDate (buildTaskFromLead (take 10) utcZone 1765980000000 testLead_tier4 ''901708714009'' [])
             \<noteq> Some 1765980000000" by blast
  from a b c d show ?thesis by blast
qed

subsection \<open>The description and the custom fields\<close>

lemma push_if: "(if c then push xs x else xs) = xs @ (if c then [x] else [])"
  by (simp add: push_def)

lemma join_sublist: "x \<in> set xs \<Longrightarrow> sublist x (join sep xs)"
proof (induction sep xs rule: join.induct)
  case (1 sep)
  then show ?case by simp
next
  case (2 sep y)
  then show ?case by simp
next
  case (3 sep y z zs)
  show ?case
  proof (cases "x = y")
    case True
    then show ?thesis by simp
  next
    case False
    with 3 have "sublist x (join sep (z # zs))" by simp
    then obtain ps ss where "join sep (z # zs) = ps @ x @ ss" by (auto simp: sublist_def)
    then have "join sep (y # z # zs) = (y @ sep @ ps) @ x @ ss" by simp
    then show ?thesis unfolding sublist_def by blast
  qed
qed

lemma templStr_present: "present v \<Longrightarrow> templStr v = the v"
  by (cases v) (simp_all add: templStr_def present_def)

lemma description_parts_unfolded:
  "generateTaskDescription_parts f lead =
     (if present (phone lead) then [pictoTelephone @ '' '' @ templStr (phone lead)] else []) @
     (if present (email lead) then [pictoEmail @ '' '' @ templStr (email lead)] else []) @
     (if present (socialHandle lead) then [pictoMobile @ '' '' @ templStr (socialHandle lead)] else []) @
     (if present (condition lead) \<or> present (specificCondition lead)
      then [nl @ pictoHospital @ '' Condition: '' @
              templStr (orStr (specificCondition lead) (condition lead))] else []) @
     [nl @ pictoPin @ '' Source: '' @ sourceStr (source lead)] @
     (if truthyNum (emailsOpened lead) \<or> truthyNum (emailsClicked lead)
      then [nl @ pictoChart @ '' Engagement: '' @ numStr (orZero (emailsOpened lead)) @
              '' opens, '' @ numStr (orZero (emailsClicked lead)) @ '' clicks''] else []) @
     (if present (lastEngagement lead)
      then [nl @ pictoClock @ '' Last contact: '' @ f (templStr (lastEngagement lead))] else []) @
     (if present (lead_notes lead) then [nl @ pictoMemo @ '' Notes: '' @ templStr (lead_notes lead)] else []) @
     (if present (ghlContactId lead)
      then [nl @ pictoLink @ '' [View in GHL](https://app.gohighlevel.com/contacts/'' @
              templStr (ghlContactId lead) @ '')''] else [])"
  unfolding generateTaskDescription_parts_def Let_def push_if truthyStr_present
  by (simp add: push_def)



lemma description_part_cases:
  assumes "p \<in> set (generateTaskDescription_parts f lead)"
  shows "(\<exists>s. p = pictoTelephone @ s) \<or> (\<exists>s. p = pictoEmail @ s) \<or> (\<exists>s. p = pictoMobile @ s) \<or>
         p = nl @ pictoHospital @ '' Condition: '' @
               templStr (orStr (specificCondition lead) (condition lead)) \<or>
         (\<exists>s. p = nl @ pictoPin @ s) \<or> (\<exists>s. p = nl @ pictoChart @ s) \<or>
         (\<exists>s. p = nl @ pictoClock @ s) \<or> (\<exists>s. p = nl @ pictoMemo @ s) \<or>
         (\<exists>s. p = nl @ pictoLink @ s)"
  using assms unfolding description_parts_unfolded set_append
  by (elim UnE) (simp_all split: if_splits)

lemma other_lines_not_condition:
  "\<not> prefix (nl @ pictoHospital) (pictoTelephone @ s)"
  "\<not> prefix (nl @ pictoHospital) (pictoEmail @ s)"
  "\<not> prefix (nl @ pictoHospital) (pictoMobile @ s)"
  "\<not> prefix (nl @ pictoHospital) (nl @ pictoPin @ s)"
  "\<not> prefix (nl @ pictoHospital) (nl @ pictoChart @ s)"
  "\<not> prefix (nl @ pictoHospital) (nl @ pictoClock @ s)"
  "\<not> prefix (nl @ pictoHospital) (nl @ pictoMemo @ s)"
  "\<not> prefix (nl @ pictoHospital) (nl @ pictoLink @ s)"
  by (simp_all add: nl_def pictoHospital_def pictoTelephone_def pictoEmail_def pictoMobile_def
        pictoPin_def pictoChart_def pictoClock_def pictoMemo_def pictoLink_def)


text \<open>
  Claim C10. For every lead with both a general and a detailed condition set, the
  task's custom field \<open>condition\<close> holds the general condition, whereas the condition
  line of the description holds the detailed one: it is among the parts of the
  description, it is the only part that starts as the condition line does, and the
  description contains it.
\<close>

theorem condition_field_and_line:
  assumes "present (condition lead)" and "present (specificCondition lead)"
  shows "(\<exists>cf. customFields (buildTaskFromLead f tz now lead lid asg) = Some cf \<and>
              cf_condition cf = condition lead) \<and>
         nl @ pictoHospital @ '' Condition: '' @ the (specificCondition lead)
           \<in> set (generateTaskDescription_parts f lead) \<and>
         (\<forall>p \<in> set (generateTaskDescription_parts f lead).
              prefix (nl @ pictoHospital) p \<longrightarrow>
              p = nl @ pictoHospital @ '' Condition: '' @ the (specificCondition lead)) \<and>
         sublist (nl @ pictoHospital @ '' Condition: '' @ the (specificCondition lead))
           (description (buildTaskFromLead f tz now lead lid asg))"
proof -
  let ?line = "nl @ pictoHospital @ '' Condition: '' @ the (specificCondition lead)"
  have cf: "\<exists>cf. customFields (buildTaskFromLead f tz now lead lid asg) = Some cf \<and>
              cf_condition cf = condition lead"
    using assms(1) by (simp add: buildTaskFromLead_def orStr_def truthyStr_present)
  have t: "templStr (orStr (specificCondition lead) (condition lead)) = the (specificCondition lead)"
    using assms(2) by (simp add: orStr_def truthyStr_present templStr_present)
  have mem: "?line \<in> set (generateTaskDescription_parts f lead)"
    unfolding description_parts_unfolded t set_append using assms(1) by simp
  have only: "p = ?line"
    if "p \<in> set (generateTaskDescription_parts f lead)" and "prefix (nl @ pictoHospital) p" for p
    using description_part_cases [OF that(1)] that(2) unfolding t
    by (elim disjE exE) (simp_all only: other_lines_not_condition)
  have sub: "sublist ?line (description (buildTaskFromLead f tz now lead lid asg))"
    using join_sublist [OF mem, of nl] by (simp add: buildTaskFromLead_def generateTaskDescription_def)
  from cf mem only sub show ?thesis by blast
qed


theorem condition_field_and_line_witness:
  "present (condition fullIntakeLead) \<and> present (specificCondition fullIntakeLead) \<and>
   (\<exists>cf. customFields (buildTaskFromLead (take 10) utcZone 1765980000000 fullIntakeLead ''901708714009'' [])
            = Some cf \<and> cf_condition cf = Some ''Severe back pain - can barely walk'') \<and>
   sublist (nl @ pictoHospital @ '' Condition: '' @ ''L5 disc herniation'')
     (description (buildTaskFromLead (take 10) utcZone 1765980000000 fullIntakeLead ''901708714009'' []))"
proof -
  have a: "present (condition fullIntakeLead)" "present (specificCondition fullIntakeLead)"
    by (simp_all add: fullIntakeLead_def testLead_tier4_def present_def)
  have c: "condition fullIntakeLead = Some ''Severe back pain - can barely walk''"
    "the (specificCondition fullIntakeLead) = ''L5 disc herniation''"
    by (simp_all add: fullIntakeLead_def testLead_tier4_def)
  note w = condition_field_and_line [OF a, of "take 10" utcZone 1765980000000 "''901708714009''" "[]",
      unfolded c]
  from w have 1: "\<exists>cf. customFields (buildTaskFromLead (take 10) utcZone 1765980000000 fullIntakeLead
      ''901708714009'' []) = Some cf \<and> cf_condition cf = Some ''Severe back pain - can barely walk''"
    by (rule conjunct1)
  from w have 2: "sublist (nl @ pictoHospital @ '' Condition: '' @ ''L5 disc herniation'')
     (description (buildTaskFromLead (take 10) utcZone 1765980000000 fullIntakeLead ''901708714009'' []))"
    by (elim conjE)
  from a 1 2 show ?thesis by (intro conjI)
qed

section \<open>The orchestrator\<close>

text \<open>The \<open>try\<close> block is its first two steps followed by the two stages.\<close>

lemma processLeadToTask_try_stages:
  "processLeadToTask_try env lead w =
     (if \<not> isActionReady lead
      then (Inr \<lparr> success = True, taskCreated = False, taskId = None, taskUrl = None,
                   slackNotified = False, error = Some ''Lead not yet at action stage'' \<rparr>, w)
      else if \<not> truthy (getListIdForTier env (tier lead))
      then (Inl (Error (''No ClickUp list configured for tier '' @ numStr (tier lead))), w)
      else createStage env lead (getListIdForTier env (tier lead)) w)"
  unfolding processLeadToTask_try_def createStage_def notifyStage_def Let_def
  by (rule refl)


lemma newEvents_append: "newEvents w (w @ evs) = evs"
  by (simp add: newEvents_def)

text \<open>
  Every stage only appends to the trace, and when the appended events hold a failed
  call of the messaging client, the stage throws the error of that call.
\<close>

lemma notifyStage_shape:
  "\<exists>evs. snd (notifyStage env lead created w) = w @ evs \<and>
     (\<forall>l c ids ch e. NotifyTaskCreated l c ids ch (Inl e) \<in> set evs \<longrightarrow>
        fst (notifyStage env lead created w) = Inl e)"
  by (auto simp add: notifyStage_def Let_def push_def split: sum.splits)

lemma createStage_shape:
  "\<exists>evs. snd (createStage env lead lid w) = w @ evs \<and>
     (\<forall>l c ids ch e. NotifyTaskCreated l c ids ch (Inl e) \<in> set evs \<longrightarrow>
        fst (createStage env lead lid w) = Inl e)"
proof -
  define w1 where "w1 = (if length (getFrontDeskClickUpIds env) = 0
               then push w (ConsoleWarn (pictoWarning @
                      '' No Front Desk team members configured, creating unassigned task''))
               else w)"
  define taskData where "taskData = buildTaskFromLead (toLocaleDateString env) (timeZone env)
                       (clock env w1) lead lid (getFrontDeskClickUpIds env)"
  have cs: "createStage env lead lid w =
     (case getClickUpClient env of
        Inl e \<Rightarrow> (Inl e, w1)
      | Inr clickup \<Rightarrow>
          (case createTask env clickup w1 taskData of
             Inl e \<Rightarrow> (Inl e, push w1 (CreateTask taskData (Inl e)))
           | Inr createdTask \<Rightarrow>
               notifyStage env lead createdTask
                 (push (push w1 (CreateTask taskData (Inr createdTask)))
                    (ConsoleLog (pictoCheck @ '' ClickUp task created: '' @
                       resp_id createdTask @ '' - '' @ resp_name createdTask)))))"
    unfolding createStage_def Let_def w1_def [symmetric] taskData_def [symmetric]
    by (simp split: sum.splits)
  obtain pre where pre: "w1 = w @ pre"
    "\<And>l c ids ch e. NotifyTaskCreated l c ids ch (Inl e) \<notin> set pre"
    by (cases "length (getFrontDeskClickUpIds env) = 0") (auto simp add: w1_def push_def)
  show ?thesis
  proof (cases "getClickUpClient env")
    case (Inl e)
    then show ?thesis using cs pre by auto
  next
    case client: (Inr clickup)
    show ?thesis
    proof (cases "createTask env clickup w1 taskData")
      case (Inl e)
      then show ?thesis using cs pre client by (auto simp add: push_def)
    next
      case (Inr createdTask)
      define w2 where "w2 = push (push w1 (CreateTask taskData (Inr createdTask)))
                    (ConsoleLog (pictoCheck @ '' ClickUp task created: '' @
                       resp_id createdTask @ '' - '' @ resp_name createdTask))"
      have eq: "createStage env lead lid w = notifyStage env lead createdTask w2"
        using cs client Inr by (simp add: w2_def)
      obtain evs where evs: "snd (notifyStage env lead createdTask w2) = w2 @ evs"
        "\<And>l c ids ch e. NotifyTaskCreated l c ids ch (Inl e) \<in> set evs \<Longrightarrow>
            fst (notifyStage env lead createdTask w2) = Inl e"
        using notifyStage_shape [of env lead createdTask w2] by blast
      define mid where "mid = pre @ [CreateTask taskData (Inr createdTask),
                    ConsoleLog (pictoCheck @ '' ClickUp task created: '' @
                       resp_id createdTask @ '' - '' @ resp_name createdTask)]"
      have w2: "w2 = w @ mid"
        by (simp add: w2_def mid_def pre(1) push_def)
      have 1: "snd (createStage env lead lid w) = w @ (mid @ evs)"
        by (simp add: eq evs(1)) (simp add: w2)
      have 2: "fst (createStage env lead lid w) = Inl e"
        if "NotifyTaskCreated l c ids ch (Inl e) \<in> set (mid @ evs)" for l c ids ch e
      proof -
        from that pre(2) have "NotifyTaskCreated l c ids ch (Inl e) \<in> set evs"
          by (auto simp add: mid_def)
        from evs(2) [OF this] show ?thesis by (simp add: eq)
      qed
      from 1 2 show ?thesis by blast
    qed
  qed
qed

lemma processLeadToTask_try_shape:
  "\<exists>evs. snd (processLeadToTask_try env lead w) = w @ evs \<and>
     (\<forall>l c ids ch e. NotifyTaskCreated l c ids ch (Inl e) \<in> set evs \<longrightarrow>
        fst (processLeadToTask_try env lead w) = Inl e)"
  using createStage_shape [of env lead "getListIdForTier env (tier lead)" w]
  by (simp add: processLeadToTask_try_stages)

lemma processLeadToTask_shape:
  "\<exists>evs. snd (processLeadToTask env lead w) = w @ evs \<and>
     (\<forall>l c ids ch e. NotifyTaskCreated l c ids ch (Inl e) \<in> set evs \<longrightarrow>
        fst (processLeadToTask env lead w) =
          Inr \<lparr> success = False, taskCreated = False, taskId = None, taskUrl = None,
                 slackNotified = False, error = Some (message e) \<rparr>)"
proof -
  obtain evs where evs: "snd (processLeadToTask_try env lead w) = w @ evs"
    "\<And>l c ids ch e. NotifyTaskCreated l c ids ch (Inl e) \<in> set evs \<Longrightarrow>
        fst (processLeadToTask_try env lead w) = Inl e"
    using processLeadToTask_try_shape [of env lead w] by blast
  obtain r w' where rw: "processLeadToTask_try env lead w = (r, w')" by (cases "processLeadToTask_try env lead w")
  with evs have w': "w' = w @ evs" by simp
  show ?thesis
  proof (cases r)
    case (Inl x)
    then have "processLeadToTask env lead w =
       (Inr \<lparr> success = False, taskCreated = False, taskId = None, taskUrl = None,
                  slackNotified = False, error = Some (message x) \<rparr>,
        w @ (evs @ [ConsoleError (pictoCross @ '' Error in lead-to-task workflow:'') x]))"
      by (simp add: processLeadToTask_def rw w' push_def)
    moreover have "x = e" if "NotifyTaskCreated l c ids ch (Inl e) \<in> set evs" for l c ids ch e
      using evs(2) [OF that] rw Inl by simp
    ultimately show ?thesis
      by (intro exI [of _ "evs @ [ConsoleError (pictoCross @ '' Error in lead-to-task workflow:'') x]"])
         auto
  next
    case (Inr x)
    then have "processLeadToTask env lead w = (Inr x, w @ evs)"
      by (simp add: processLeadToTask_def rw w')
    moreover have "NotifyTaskCreated l c ids ch (Inl e) \<notin> set evs" for l c ids ch e
    proof
      assume "NotifyTaskCreated l c ids ch (Inl e) \<in> set evs"
      from evs(2) [OF this] rw Inr show False by simp
    qed
    ultimately show ?thesis by (intro exI [of _ evs]) simp
  qed
qed

lemma processLeadToTask_not_ready:
  assumes "\<not> isActionReady lead"
  shows "processLeadToTask env lead w =
     (Inr \<lparr> success = True, taskCreated = False, taskId = None, taskUrl = None,
            slackNotified = False, error = Some ''Lead not yet at action stage'' \<rparr>, w)"
  using assms by (simp add: processLeadToTask_def processLeadToTask_try_stages)

lemma processLeadToTask_no_list:
  assumes "isActionReady lead" and "getListIdForTier env (tier lead) = []"
  shows "processLeadToTask env lead w =
     (Inr \<lparr> success = False, taskCreated = False, taskId = None, taskUrl = None,
            slackNotified = False,
            error = Some (''No ClickUp list configured for tier '' @ numStr (tier lead)) \<rparr>,
      w @ [ConsoleError (pictoCross @ '' Error in lead-to-task workflow:'')
             (Error (''No ClickUp list configured for tier '' @ numStr (tier lead)))])"
  using assms by (simp add: processLeadToTask_def processLeadToTask_try_stages truthy_def push_def)

lemma ready_tier4: "isActionReady testLead_tier4"
  by (simp add: isActionReady_def testLead_tier4_def)

lemma ready_tier3: "isActionReady testLead_tier3"
  by (simp add: isActionReady_def testLead_tier3_def orZero_def truthyNum_def)

lemma not_ready_tier2: "\<not> isActionReady testLead_tier2"
  by (simp add: isActionReady_def testLead_tier2_def orZero_def truthyNum_def)

lemma tier_testLeads:
  "tier testLead_tier4 = 4" "tier testLead_tier3 = 3" "tier testLead_tier2 = 2"
  by (simp_all add: testLead_tier4_def testLead_tier3_def testLead_tier2_def)

lemma numStr_4: "numStr 4 = ''4''"
  by (simp add: numStr_def digits.simps digitChar_def)

lemma listId_buildTaskFromLead: "listId (buildTaskFromLead f tz now lead lid asg) = lid"
  by (simp add: buildTaskFromLead_def)

text \<open>
  Claim C7, as the code has it. For every lead for which \<open>isActionReady\<close> is false,
  \<open>processLeadToTask\<close> returns the outcome with \<open>success\<close> true, \<open>taskCreated\<close>
  false, \<open>slackNotified\<close> false and the error text \<open>Lead not yet at action stage\<close>
  (capital L), and leaves the trace as it was: no call of the task store, none of
  the messaging client, no console line.
\<close>

theorem not_ready_is_successful_noop:
  assumes "\<not> isActionReady lead"
  shows "processLeadToTask env lead w =
     (Inr \<lparr> success = True, taskCreated = False, taskId = None, taskUrl = None,
            slackNotified = False, error = Some ''Lead not yet at action stage'' \<rparr>, w)
     \<and> newEvents w (snd (processLeadToTask env lead w)) = []"
  using processLeadToTask_not_ready [OF assms, of env w] by (simp add: newEvents_def)

theorem not_ready_is_successful_noop_witness:
  "\<not> isActionReady testLead_tier2 \<and>
   processLeadToTask sampleEnv testLead_tier2 [] =
     (Inr \<lparr> success = True, taskCreated = False, taskId = None, taskUrl = None,
            slackNotified = False, error = Some ''Lead not yet at action stage'' \<rparr>, [])"
  using not_ready_tier2 not_ready_is_successful_noop [OF not_ready_tier2, of sampleEnv "[]"]
  by blast

text \<open>
  Claim C7 as worded gives the error text as \<open>lead not yet at action stage\<close>. For
  the third lead of the test script (tier 2, engaged, one email opened, none
  clicked) the outcome's error text is not that string.
\<close>

theorem not_ready_error_text_counterexample:
  "\<not> isActionReady testLead_tier2 \<and>
   (\<exists>out. fst (processLeadToTask sampleEnv testLead_tier2 []) = Inr out \<and>
      error out = Some ''Lead not yet at action stage'' \<and>
      error out \<noteq> Some ''lead not yet at action stage'')"
  using not_ready_tier2 by (simp add: processLeadToTask_not_ready [OF not_ready_tier2])

text \<open>
  Claim C8, as the code has it. For every ready lead for whose tier the list lookup
  returns the empty string, \<open>processLeadToTask\<close> returns the outcome with \<open>success\<close>
  false, \<open>taskCreated\<close> false and the error text
  \<open>No ClickUp list configured for tier N\<close>, \<open>N\<close> being the tier in decimal, and the
  run calls neither the task store nor the messaging client.
\<close>

theorem no_list_fails_before_create:
  assumes "isActionReady lead" and "getListIdForTier env (tier lead) = []"
  shows "fst (processLeadToTask env lead w) =
           Inr \<lparr> success = False, taskCreated = False, taskId = None, taskUrl = None,
                  slackNotified = False,
                  error = Some (''No ClickUp list configured for tier '' @ numStr (tier lead)) \<rparr>
         \<and> filter isExternalCall (newEvents w (snd (processLeadToTask env lead w))) = []"
  unfolding processLeadToTask_no_list [OF assms] by (simp add: newEvents_append)

lemma noList_tier4: "getListIdForTier noListEnv (tier testLead_tier4) = []"
  by (simp add: noListEnv_def getListIdForTier_def)

theorem no_list_fails_before_create_witness:
  "isActionReady testLead_tier4 \<and> getListIdForTier noListEnv (tier testLead_tier4) = [] \<and>
   fst (processLeadToTask noListEnv testLead_tier4 []) =
           Inr \<lparr> success = False, taskCreated = False, taskId = None, taskUrl = None,
                  slackNotified = False,
                  error = Some (''No ClickUp list configured for tier '' @ ''4'') \<rparr>"
  using no_list_fails_before_create [OF ready_tier4 noList_tier4, of "[]"] ready_tier4 noList_tier4
  unfolding tier_testLeads numStr_4 by blast

text \<open>
  Claim C8 as worded gives the error text as \<open>no destination configured for tier N\<close>.
  For the first lead of the test script (tier 4) and no list configured, the outcome's
  error text is not that string.
\<close>

theorem no_list_error_text_counterexample:
  "isActionReady testLead_tier4 \<and> getListIdForTier noListEnv (tier testLead_tier4) = [] \<and>
   (\<exists>out. fst (processLeadToTask noListEnv testLead_tier4 []) = Inr out \<and>
      error out = Some ''No ClickUp list configured for tier 4'' \<and>
      error out \<noteq> Some ''no destination configured for tier 4'')"
  using ready_tier4 noList_tier4
  by (simp add: processLeadToTask_no_list [OF ready_tier4 noList_tier4] tier_testLeads numStr_4)

text \<open>
  Claim C1. For every lead that passes the readiness gate: when the run's events hold
  a call of the task store that succeeded and a call of the messaging client that
  failed with error \<open>e\<close>, \<open>processLeadToTask\<close> returns the outcome with \<open>success\<close>
  false, \<open>taskCreated\<close> false, \<open>slackNotified\<close> false and the message of \<open>e\<close> as
  error text, although the task was created.
\<close>

theorem notify_failure_fails_whole_run:
  assumes "isActionReady lead"
    and "CreateTask task (Inr created) \<in> set (newEvents w (snd (processLeadToTask env lead w)))"
    and "NotifyTaskCreated l c ids channel (Inl e)
           \<in> set (newEvents w (snd (processLeadToTask env lead w)))"
  shows "fst (processLeadToTask env lead w) =
           Inr \<lparr> success = False, taskCreated = False, taskId = None, taskUrl = None,
                  slackNotified = False, error = Some (message e) \<rparr>"
proof -
  obtain evs where evs: "snd (processLeadToTask env lead w) = w @ evs"
    "\<And>l c ids ch e. NotifyTaskCreated l c ids ch (Inl e) \<in> set evs \<Longrightarrow>
        fst (processLeadToTask env lead w) =
          Inr \<lparr> success = False, taskCreated = False, taskId = None, taskUrl = None,
                 slackNotified = False, error = Some (message e) \<rparr>"
    using processLeadToTask_shape [of env lead w] by blast
  from assms(3) have "NotifyTaskCreated l c ids channel (Inl e) \<in> set evs"
    by (simp add: evs(1) newEvents_append)
  then show ?thesis by (rule evs(2))
qed

subsection \<open>The batch runner\<close>

text \<open>\<open>processLeadToTask\<close> never throws: whatever happens it returns an outcome.\<close>

lemma processLeadToTask_total: "\<exists>r. fst (processLeadToTask env lead w) = Inr r"
  by (cases "processLeadToTask_try env lead w")
     (auto simp add: processLeadToTask_def split: sum.splits)

lemma loop_snoc:
  "processMultipleLeads_loop env (leads @ [lead]) results w =
     (case processMultipleLeads_loop env leads results w of
        (Inl e, w') \<Rightarrow> (Inl e, w')
      | (Inr rs, w') \<Rightarrow>
          (case processLeadToTask env lead w' of
             (Inl e, w'') \<Rightarrow> (Inl e, w'')
           | (Inr r, w'') \<Rightarrow> (Inr (push rs r), delay 1000 w'')))"
  by (induction leads arbitrary: results w) (auto split: prod.splits sum.splits)

lemma processMultipleLeads_snoc:
  assumes "fst (processMultipleLeads env leads w) = Inr rs"
    and "fst (processLeadToTask env lead (snd (processMultipleLeads env leads w))) = Inr r"
  shows "processMultipleLeads env (leads @ [lead]) w =
     (Inr (rs @ [r]),
      delay 1000 (snd (processLeadToTask env lead (snd (processMultipleLeads env leads w)))))"
proof -
  obtain w' where 1: "processMultipleLeads_loop env leads [] w = (Inr rs, w')"
    using assms(1) by (cases "processMultipleLeads_loop env leads [] w")
      (simp add: processMultipleLeads_def)
  obtain w'' where 2: "processLeadToTask env lead w' = (Inr r, w'')"
    using assms(2) 1 by (cases "processLeadToTask env lead w'") (simp add: processMultipleLeads_def)
  show ?thesis
    by (simp add: processMultipleLeads_def loop_snoc 1 2 push_def)
qed

text \<open>
  Claim C9. For every sequence of leads, \<open>processMultipleLeads\<close> returns a list of
  outcomes (it does not throw) as long as the input, and for every position \<open>i\<close> the
  \<open>i\<close>-th outcome is what \<open>processLeadToTask\<close> returns for the \<open>i\<close>-th lead when
  run on the trace the first \<open>i\<close> leads left; the trace after \<open>i + 1\<close> leads is
  the trace of that run followed by the delay. So the orchestrator runs once per lead,
  in input order, and an outcome with \<open>success\<close> false stops nothing.
\<close>

theorem batch_one_outcome_per_lead:
  "\<exists>results. fst (processMultipleLeads env leads w) = Inr results \<and>
     length results = length leads \<and>
     (\<forall>i<length leads.
        fst (processLeadToTask env (leads ! i) (snd (processMultipleLeads env (take i leads) w)))
          = Inr (results ! i) \<and>
        snd (processMultipleLeads env (take (Suc i) leads) w)
          = delay 1000 (snd (processLeadToTask env (leads ! i)
                               (snd (processMultipleLeads env (take i leads) w)))))"
proof (induction leads rule: rev_induct)
  case Nil
  show ?case by (simp add: processMultipleLeads_def)
next
  case (snoc lead leads)
  then obtain rs where rs: "fst (processMultipleLeads env leads w) = Inr rs"
    "length rs = length leads"
    and step: "\<And>i. i < length leads \<Longrightarrow>
        fst (processLeadToTask env (leads ! i) (snd (processMultipleLeads env (take i leads) w)))
          = Inr (rs ! i) \<and>
        snd (processMultipleLeads env (take (Suc i) leads) w)
          = delay 1000 (snd (processLeadToTask env (leads ! i)
                               (snd (processMultipleLeads env (take i leads) w))))"
    by blast
  obtain r where r: "fst (processLeadToTask env lead (snd (processMultipleLeads env leads w))) = Inr r"
    using processLeadToTask_total by blast
  note whole = processMultipleLeads_snoc [OF rs(1) r]
  have "fst (processLeadToTask env ((leads @ [lead]) ! i)
               (snd (processMultipleLeads env (take i (leads @ [lead])) w)))
          = Inr ((rs @ [r]) ! i) \<and>
        snd (processMultipleLeads env (take (Suc i) (leads @ [lead])) w)
          = delay 1000 (snd (processLeadToTask env ((leads @ [lead]) ! i)
                               (snd (processMultipleLeads env (take i (leads @ [lead])) w))))"
    if "i < length (leads @ [lead])" for i
  proof (cases "i < length leads")
    case True
    then show ?thesis using step [OF True] rs(2) by (simp add: nth_append)
  next
    case False
    with that have i: "i = length leads" by simp
    show ?thesis using r whole rs(2) by (simp add: i nth_append)
  qed
  with whole rs(2) show ?case
    by (intro exI [of _ "rs @ [r]"]) simp
qed

subsection \<open>Sample runs\<close>

lemmas run_simps = processLeadToTask_def processLeadToTask_try_stages createStage_def
  notifyStage_def Let_def push_def truthy_def truthyStr_def sampleEnv_def tier_testLeads
  listId_buildTaskFromLead getListIdForTier_def getFrontDeskChannelId_def
  getFrontDeskClickUpIds_def getFrontDeskSlackIds_def getClickUpClient_def getSlackClient_def

lemma storeError_tier4:
  "fst (processLeadToTask storeErrorEnv testLead_tier4 w) =
     Inr \<lparr> success = True, taskCreated = True, taskId = Some ''86a1'',
            taskUrl = Some ''https://app.clickup.com/t/86a1'', slackNotified = True,
            error = None \<rparr>"
  by (simp add: run_simps storeErrorEnv_def ready_tier4 sampleResponse_def)

lemma storeError_tier3:
  "fst (processLeadToTask storeErrorEnv testLead_tier3 w) =
     Inr \<lparr> success = False, taskCreated = False, taskId = None, taskUrl = None,
            slackNotified = False, error = Some ''Request failed with status code 401'' \<rparr>"
  by (simp add: run_simps storeErrorEnv_def ready_tier3)

lemma slackDown_tier4:
  "newEvents [] (snd (processLeadToTask slackDownEnv testLead_tier4 [])) =
     [ConsoleWarn (pictoWarning @ '' No Front Desk team members configured, creating unassigned task''),
      CreateTask (buildTaskFromLead (take 10) utcZone 1765980000000 testLead_tier4 ''901708714009'' [])
        (Inr (sampleResponse
           (buildTaskFromLead (take 10) utcZone 1765980000000 testLead_tier4 ''901708714009'' []))),
      ConsoleLog (pictoCheck @ '' ClickUp task created: '' @ ''86a1'' @ '' - '' @
        generateTaskName testLead_tier4),
      ConsoleWarn (pictoWarning @ '' No Slack users configured, posting without mentions''),
      NotifyTaskCreated testLead_tier4
        (sampleResponse
           (buildTaskFromLead (take 10) utcZone 1765980000000 testLead_tier4 ''901708714009'' []))
        [] ''C0FRONTDESK'' (Inl (Error ''Slack API error: channel_not_found'')),
      ConsoleError (pictoCross @ '' Error in lead-to-task workflow:'')
        (Error ''Slack API error: channel_not_found'')]"
  by (simp add: run_simps slackDownEnv_def ready_tier4 newEvents_def sampleResponse_def
        buildTaskFromLead_def)

theorem notify_failure_fails_whole_run_witness:
  "isActionReady testLead_tier4 \<and>
   CreateTask (buildTaskFromLead (take 10) utcZone 1765980000000 testLead_tier4 ''901708714009'' [])
        (Inr (sampleResponse
           (buildTaskFromLead (take 10) utcZone 1765980000000 testLead_tier4 ''901708714009'' [])))
     \<in> set (newEvents [] (snd (processLeadToTask slackDownEnv testLead_tier4 []))) \<and>
   NotifyTaskCreated testLead_tier4
        (sampleResponse
           (buildTaskFromLead (take 10) utcZone 1765980000000 testLead_tier4 ''901708714009'' []))
        [] ''C0FRONTDESK'' (Inl (Error ''Slack API error: channel_not_found''))
     \<in> set (newEvents [] (snd (processLeadToTask slackDownEnv testLead_tier4 []))) \<and>
   fst (processLeadToTask slackDownEnv testLead_tier4 []) =
     Inr \<lparr> success = False, taskCreated = False, taskId = None, taskUrl = None,
            slackNotified = False, error = Some ''Slack API error: channel_not_found'' \<rparr>"
proof -
  have a: "CreateTask (buildTaskFromLead (take 10) utcZone 1765980000000 testLead_tier4 ''901708714009'' [])
        (Inr (sampleResponse
           (buildTaskFromLead (take 10) utcZone 1765980000000 testLead_tier4 ''901708714009'' [])))
     \<in> set (newEvents [] (snd (processLeadToTask slackDownEnv testLead_tier4 [])))"
    by (simp add: slackDown_tier4)
  have b: "NotifyTaskCreated testLead_tier4
        (sampleResponse
           (buildTaskFromLead (take 10) utcZone 1765980000000 testLead_tier4 ''901708714009'' []))
        [] ''C0FRONTDESK'' (Inl (Error ''Slack API error: channel_not_found''))
     \<in> set (newEvents [] (snd (processLeadToTask slackDownEnv testLead_tier4 [])))"
    by (simp add: slackDown_tier4)
  from notify_failure_fails_whole_run [OF ready_tier4 a b]
  have c: "fst (processLeadToTask slackDownEnv testLead_tier4 []) =
     Inr \<lparr> success = False, taskCreated = False, taskId = None, taskUrl = None,
            slackNotified = False, error = Some ''Slack API error: channel_not_found'' \<rparr>"
    by simp
  from ready_tier4 a b c show ?thesis by (intro conjI)
qed

theorem batch_one_outcome_per_lead_witness:
  "\<exists>results.
     fst (processMultipleLeads storeErrorEnv [testLead_tier4, testLead_tier3, testLead_tier2] [])
       = Inr results \<and>
     length results = 3 \<and>
     success (results ! 0) \<and> taskCreated (results ! 0) \<and>
     \<not> success (results ! 1) \<and> error (results ! 1) = Some ''Request failed with status code 401'' \<and>
     success (results ! 2) \<and> \<not> taskCreated (results ! 2)"
proof -
  let ?leads = "[testLead_tier4, testLead_tier3, testLead_tier2]"
  obtain results where res:
    "fst (processMultipleLeads storeErrorEnv ?leads []) = Inr results"
    "length results = length ?leads"
    and each: "\<And>i. i < length ?leads \<Longrightarrow>
        fst (processLeadToTask storeErrorEnv (?leads ! i)
               (snd (processMultipleLeads storeErrorEnv (take i ?leads) [])))
          = Inr (results ! i)"
    using batch_one_outcome_per_lead [of storeErrorEnv ?leads "[]"] by blast
  have 0: "results ! 0 = \<lparr> success = True, taskCreated = True, taskId = Some ''86a1'',
            taskUrl = Some ''https://app.clickup.com/t/86a1'', slackNotified = True,
            error = None \<rparr>"
    using each [of 0] by (simp add: storeError_tier4)
  have 1: "results ! 1 = \<lparr> success = False, taskCreated = False, taskId = None, taskUrl = None,
            slackNotified = False, error = Some ''Request failed with status code 401'' \<rparr>"
    using each [of 1] by (simp add: storeError_tier3)
  have 2: "results ! 2 = \<lparr> success = True, taskCreated = False, taskId = None, taskUrl = None,
            slackNotified = False, error = Some ''Lead not yet at action stage'' \<rparr>"
    using each [of 2] by (simp add: processLeadToTask_not_ready [OF not_ready_tier2])
  from res 0 1 2 show ?thesis by (intro exI [of _ results]) simp
qed

end
